theory Spec2Isabelle
  imports Complex_Main "HOL-Library.AList"
begin

section \<open>The socket controller of the AMP client\<close>

text \<open>
  The development embeds the socket controller (\<^verbatim>\<open>openConnection\<close> and the handlers it
  installs) as functions that return the sequence of effects a handler performs: the
  actions it dispatches to the store, the message it sends over the socket, and the
  failures of the calls it makes. The collaborators the controller imports (the signer,
  the parsers, \<^verbatim>\<open>utils.getAddress\<close> of ethers, \<^verbatim>\<open>getRandomNonce\<close>) are parameters of the
  model, collected in the record \<open>env\<close>.
\<close>

subsection \<open>Values of the wire\<close>

text \<open>
  A decoded message is a JSON value. An array carries, besides its elements, the named
  properties written to it (arrays are objects: \<^verbatim>\<open>a.nonce = n\<close> succeeds on an array).
  The association list of an object holds its own properties, each key once. Numbers are
  the finite doubles JSON can carry; only their truthiness is used.
\<close>

datatype jsval =
    JUndefined
  | JNull
  | JBool bool
  | JNum real
  | JStr string
  | JArr "jsval list" "(string \<times> jsval) list"
  | JObj "(string \<times> jsval) list"

text \<open>
  A thrown value: a \<^verbatim>\<open>TypeError\<close> of the language (its message is the engine's), or an
  error with the message it was constructed with.
\<close>

datatype exn = TypeError | Failure string

text \<open>The truth value of a value in a condition (\<^verbatim>\<open>if (order)\<close>, \<^verbatim>\<open>!event.payload\<close>).\<close>

fun truthy :: "jsval \<Rightarrow> bool" where
  "truthy JUndefined = False"
| "truthy JNull = False"
| "truthy (JBool b) = b"
| "truthy (JNum x) = (x \<noteq> 0)"
| "truthy (JStr s) = (s \<noteq> [])"
| "truthy (JArr xs ps) = True"
| "truthy (JObj kvs) = True"

text \<open>
  Reading a property, \<^verbatim>\<open>v.name\<close>, for the names the controller reads (\<^verbatim>\<open>channel\<close>,
  \<^verbatim>\<open>event\<close>, \<^verbatim>\<open>type\<close>, \<^verbatim>\<open>payload\<close>, \<^verbatim>\<open>hash\<close>, \<^verbatim>\<open>order\<close>, \<^verbatim>\<open>remainingOrder\<close>, \<^verbatim>\<open>matches\<close>,
  \<^verbatim>\<open>trade\<close>, \<^verbatim>\<open>userAddress\<close>, \<^verbatim>\<open>maker\<close>, \<^verbatim>\<open>taker\<close>): none of them is inherited from a
  prototype, so a value that does not own the property yields \<^verbatim>\<open>undefined\<close>; reading from
  \<^verbatim>\<open>undefined\<close> or \<^verbatim>\<open>null\<close> throws.
\<close>

fun get_prop :: "string \<Rightarrow> jsval \<Rightarrow> exn + jsval" where
  "get_prop n JUndefined = Inl TypeError"
| "get_prop n JNull = Inl TypeError"
| "get_prop n (JObj kvs) = Inr (case map_of kvs n of None \<Rightarrow> JUndefined | Some v \<Rightarrow> v)"
| "get_prop n (JArr xs ps) = Inr (case map_of ps n of None \<Rightarrow> JUndefined | Some v \<Rightarrow> v)"
| "get_prop n (JBool b) = Inr JUndefined"
| "get_prop n (JNum x) = Inr JUndefined"
| "get_prop n (JStr s) = Inr JUndefined"

text \<open>
  Writing a property, \<^verbatim>\<open>obj.name = v\<close>, for the names the controller writes (\<^verbatim>\<open>nonce\<close>,
  \<^verbatim>\<open>tradeNonce\<close>). The module is strict code, so the write throws on a primitive as well as
  on \<^verbatim>\<open>undefined\<close> and \<^verbatim>\<open>null\<close>. \<open>put_prop\<close> is the object after the write.
\<close>

fun put_prop :: "string \<Rightarrow> jsval \<Rightarrow> jsval \<Rightarrow> jsval" where
  "put_prop n v (JObj kvs) = JObj (AList.update n v kvs)"
| "put_prop n v (JArr xs ps) = JArr xs (AList.update n v ps)"
| "put_prop n v x = x"

fun set_prop :: "string \<Rightarrow> jsval \<Rightarrow> jsval \<Rightarrow> exn + jsval" where
  "set_prop n v (JObj kvs) = Inr (put_prop n v (JObj kvs))"
| "set_prop n v (JArr xs ps) = Inr (put_prop n v (JArr xs ps))"
| "set_prop n v x = Inl TypeError"

text \<open>
  Calling an array method, \<^verbatim>\<open>matches.forEach(f)\<close> or \<^verbatim>\<open>matches.map(f)\<close>: the receiver
  must be an array that does not shadow the method by a property of its own (a property
  of the wire is never a function); the callback then runs over the elements.
\<close>

fun array_elems :: "string \<Rightarrow> jsval \<Rightarrow> exn + jsval list" where
  "array_elems m (JArr xs ps) = (if map_of ps m = None then Inr xs else Inl TypeError)"
| "array_elems m x = Inl TypeError"

text \<open>The array with its elements replaced: the same array after its elements were mutated.\<close>

fun with_elems :: "jsval list \<Rightarrow> jsval \<Rightarrow> jsval" where
  "with_elems ys (JArr xs ps) = JArr ys ps"
| "with_elems ys x = x"

text \<open>
  \<^verbatim>\<open>event.payload === []\<close> compares the payload with an array allocated by the comparison
  itself: strict equality on objects is identity, so the comparison is false for every
  payload.
\<close>

definition is_fresh_array :: "jsval \<Rightarrow> bool" where
  "is_fresh_array v = False"

subsection \<open>Actions, effects and collaborators\<close>

text \<open>
  The text of a notification: a literal, the \<^verbatim>\<open>message\<close> of a caught value, or the
  template \<^verbatim>\<open>`Error: ${event.payload}`\<close>.
\<close>

datatype notice = Text string | MessageOf exn | ErrorTemplate jsval

text \<open>
  The actions the controller dispatches (\<^verbatim>\<open>actions/socketController\<close> and \<^verbatim>\<open>actions/app\<close>).
  \<open>'o\<close>, \<open>'t\<close>, \<open>'l\<close> and \<open>'c\<close> are the parsed orders, trades, order book sides and candle
  series.
\<close>

datatype ('o, 't, 'l, 'c) action =
    CreateConnection
  | CloseConnection
  | AddSuccessNotification notice
  | AddDangerNotification notice
  | UpdateOrdersTable "'o list"
  | UpdateTradesTable "'t list"
  | InitTradesTable "'t list"
  | InitOrderBook 'l 'l
  | UpdateOrderBook 'l 'l
  | InitOHLCV 'c
  | UpdateOHLCV 'c

text \<open>Where a failure comes from: the language itself or the call of a collaborator.\<close>

datatype site =
    Language
  | Call_getSigner
  | Call_signer_getAddress
  | Call_signOrder
  | Call_signTrade
  | Call_utils_getAddress
  | Call_parseOrder
  | Call_parseTrade
  | Call_parseTrades
  | Call_parseOrderBookData
  | Call_parseOHLCV

text \<open>
  What a handler does, in program order. \<open>Raised s e\<close> records that the operation at \<open>s\<close>
  failed with \<open>e\<close> (a throw, or the rejection of the promise the call returned), at the
  position of the call. Writes to the console are not recorded: they touch neither the
  store nor the socket.
\<close>

datatype ('o, 't, 'l, 'c) effect =
    Dispatch "('o, 't, 'l, 'c) action"
  | SendNewSubmitSignatureMessage jsval jsval jsval jsval
  | Raised site exn
  | SocketCreateConnection
  | SocketOpenConnection
  | SocketOnMessage
  | SocketCloseConnection

text \<open>
  The signer (\<^verbatim>\<open>services/signer\<close>). Each method returns a promise; the model gives how it
  settles. \<open>signOrder s v = Inr v'\<close> says that the promise is fulfilled and that \<open>v'\<close> is the
  object passed, as the signer left it: the controller discards the value of the promise
  (lines 213 and 221) and later transmits the very object it passed.
\<close>

record signer =
  getAddress :: "exn + jsval"
  signOrder :: "jsval \<Rightarrow> exn + jsval"
  signTrade :: "jsval \<Rightarrow> exn + jsval"

text \<open>
  The collaborators. \<open>getSigner\<close> throws or returns; \<open>None\<close> is a returned value that has
  no signer's methods (\<^verbatim>\<open>undefined\<close>). \<open>getRandomNonce env k\<close> is the value of the \<open>k\<close>-th
  call of \<^verbatim>\<open>getRandomNonce\<close> within a handler. \<open>race\<close> decides which of several rejected
  promises of one \<^verbatim>\<open>Promise.all\<close> is rejected first.
\<close>

record ('o, 't, 'l, 'c) env =
  getSigner :: "exn + signer option"
  getRandomNonce :: "nat \<Rightarrow> jsval"
  utils_getAddress :: "jsval \<Rightarrow> exn + string"
  parseOrder :: "jsval \<Rightarrow> exn + 'o"
  parseTrade :: "jsval \<Rightarrow> exn + 't"
  parseTrades :: "jsval \<Rightarrow> exn + 't list"
  parseOrderBookData :: "jsval \<Rightarrow> exn + 'l \<times> 'l"
  parseOHLCV :: "jsval \<Rightarrow> exn + 'c"
  race :: nat

subsection \<open>Sequencing, throwing and catching\<close>

text \<open>
  A computation is the effects it performed and how it ended: with a value, or with the
  thrown value that ended it.
\<close>

type_synonym ('e, 'a) comp = "'e list \<times> (exn + 'a)"

definition ret :: "'a \<Rightarrow> ('e, 'a) comp" where
  "ret x = ([], Inr x)"

definition emit :: "'e \<Rightarrow> ('e, unit) comp" where
  "emit ef = ([ef], Inr ())"

definition and_then :: "('e, 'a) comp \<Rightarrow> ('a \<Rightarrow> ('e, 'b) comp) \<Rightarrow> ('e, 'b) comp" where
  "and_then m f =
     (case m of
        (tr, Inl e) \<Rightarrow> (tr, Inl e)
      | (tr, Inr x) \<Rightarrow> (case f x of (tr', r) \<Rightarrow> (tr @ tr', r)))"

definition try_catch :: "('e, 'a) comp \<Rightarrow> (exn \<Rightarrow> ('e, 'a) comp) \<Rightarrow> ('e, 'a) comp" where
  "try_catch m h =
     (case m of
        (tr, Inl e) \<Rightarrow> (case h e of (tr', r) \<Rightarrow> (tr @ tr', r))
      | (tr, Inr x) \<Rightarrow> (tr, Inr x))"

definition raise :: "site \<Rightarrow> exn \<Rightarrow> (('o, 't, 'l, 'c) effect, 'a) comp" where
  "raise s e = ([Raised s e], Inl e)"

definition call :: "site \<Rightarrow> exn + 'a \<Rightarrow> (('o, 't, 'l, 'c) effect, 'a) comp" where
  "call s r = (case r of Inl e \<Rightarrow> raise s e | Inr x \<Rightarrow> ret x)"

definition dispatch :: "('o, 't, 'l, 'c) action \<Rightarrow> (('o, 't, 'l, 'c) effect, unit) comp" where
  "dispatch a = emit (Dispatch a)"

definition read_prop :: "string \<Rightarrow> jsval \<Rightarrow> (('o, 't, 'l, 'c) effect, jsval) comp" where
  "read_prop n v = call Language (get_prop n v)"

definition write_prop :: "string \<Rightarrow> jsval \<Rightarrow> jsval \<Rightarrow> (('o, 't, 'l, 'c) effect, jsval) comp" where
  "write_prop n v obj = call Language (set_prop n v obj)"

definition elems :: "string \<Rightarrow> jsval \<Rightarrow> (('o, 't, 'l, 'c) effect, jsval list) comp" where
  "elems m v = call Language (array_elems m v)"

text \<open>
  The \<^verbatim>\<open>catch\<close> block of every handler: a danger notification with the message of the
  caught value.
\<close>

definition catch_block :: "exn \<Rightarrow> (('o, 't, 'l, 'c) effect, unit) comp" where
  "catch_block e = dispatch (AddDangerNotification (MessageOf e))"

subsection \<open>The order handlers\<close>

text \<open>\<^verbatim>\<open>handleOrderAdded\<close> and \<^verbatim>\<open>handleOrderCancelled\<close> (lines 100 to 127).\<close>

definition handleOrderAdded ::
  "('o, 't, 'l, 'c) env \<Rightarrow> jsval \<Rightarrow> (('o, 't, 'l, 'c) effect, unit) comp" where
  "handleOrderAdded env event =
     try_catch
       (and_then (read_prop ''payload'' event) (\<lambda>payload.
        and_then (call Call_parseOrder (parseOrder env payload)) (\<lambda>order.
        and_then (dispatch (AddSuccessNotification (Text ''Order added''))) (\<lambda>_.
        dispatch (UpdateOrdersTable [order])))))
       catch_block"

definition handleOrderCancelled ::
  "('o, 't, 'l, 'c) env \<Rightarrow> jsval \<Rightarrow> (('o, 't, 'l, 'c) effect, unit) comp" where
  "handleOrderCancelled env event =
     try_catch
       (and_then (read_prop ''payload'' event) (\<lambda>payload.
        and_then (call Call_parseOrder (parseOrder env payload)) (\<lambda>order.
        and_then (dispatch (AddSuccessNotification (Text ''Order cancelled''))) (\<lambda>_.
        dispatch (UpdateOrdersTable [order])))))
       catch_block"

text \<open>
  \<^verbatim>\<open>await signer.getAddress()\<close>: a \<^verbatim>\<open>TypeError\<close> when \<^verbatim>\<open>getSigner\<close> returned no signer.
\<close>

definition await_getAddress :: "signer option \<Rightarrow> (('o, 't, 'l, 'c) effect, jsval) comp" where
  "await_getAddress s =
     (case s of
        None \<Rightarrow> raise Language TypeError
      | Some sg \<Rightarrow> call Call_signer_getAddress (getAddress sg))"

text \<open>
  The callback of \<^verbatim>\<open>matches.forEach\<close> in \<^verbatim>\<open>handleOrderSuccess\<close> and \<^verbatim>\<open>handleOrderPending\<close>
  (lines 139 to 147 and 169 to 178, the same text), with the two batches it pushes to.
  \<^verbatim>\<open>||\<close> evaluates its right operand only when the left one is false.
\<close>

definition match_callback ::
  "('o, 't, 'l, 'c) env \<Rightarrow> jsval \<Rightarrow> jsval \<Rightarrow> 'o list \<times> 't list \<Rightarrow>
     (('o, 't, 'l, 'c) effect, 'o list \<times> 't list) comp" where
  "match_callback env signerAddress match batches =
     (case batches of (orders, trades) \<Rightarrow>
     and_then (read_prop ''order'' match) (\<lambda>order.
     and_then (read_prop ''trade'' match) (\<lambda>trade.
     and_then (read_prop ''userAddress'' order) (\<lambda>userAddress.
     and_then (call Call_utils_getAddress (utils_getAddress env userAddress)) (\<lambda>owner.
     and_then (if JStr owner = signerAddress
               then and_then (call Call_parseOrder (parseOrder env order)) (\<lambda>parsed.
                    ret (orders @ [parsed]))
               else ret orders) (\<lambda>orders'.
     and_then (read_prop ''maker'' trade) (\<lambda>maker.
     and_then (call Call_utils_getAddress (utils_getAddress env maker)) (\<lambda>makerAddress.
     and_then (if JStr makerAddress = signerAddress then ret True
               else and_then (read_prop ''taker'' trade) (\<lambda>taker.
                    and_then (call Call_utils_getAddress (utils_getAddress env taker))
                      (\<lambda>takerAddress.
                    ret (JStr takerAddress = signerAddress)))) (\<lambda>mine.
     and_then (if mine
               then and_then (call Call_parseTrade (parseTrade env trade)) (\<lambda>parsed.
                    ret (trades @ [parsed]))
               else ret trades) (\<lambda>trades'.
     ret (orders', trades')))))))))))"

text \<open>\<^verbatim>\<open>xs.forEach(f)\<close>, for a callback that updates what it closes over.\<close>

fun forEach :: "('x \<Rightarrow> 'a \<Rightarrow> ('e, 'a) comp) \<Rightarrow> 'x list \<Rightarrow> 'a \<Rightarrow> ('e, 'a) comp" where
  "forEach f [] acc = ret acc"
| "forEach f (x # xs) acc = and_then (f x acc) (forEach f xs)"

text \<open>\<^verbatim>\<open>handleOrderSuccess\<close> (lines 129 to 158) and \<^verbatim>\<open>handleOrderPending\<close> (lines 160 to 189).\<close>

definition handleOrderSuccess ::
  "('o, 't, 'l, 'c) env \<Rightarrow> jsval \<Rightarrow> (('o, 't, 'l, 'c) effect, unit) comp" where
  "handleOrderSuccess env event =
     try_catch
       (and_then (call Call_getSigner (getSigner env)) (\<lambda>signer.
        and_then (await_getAddress signer) (\<lambda>signerAddress.
        and_then (read_prop ''payload'' event) (\<lambda>payload.
        and_then (read_prop ''matches'' payload) (\<lambda>matches.
        and_then (elems ''forEach'' matches) (\<lambda>ms.
        and_then (forEach (match_callback env signerAddress) ms ([], [])) (\<lambda>(orders, trades).
        and_then (if orders \<noteq> [] then dispatch (UpdateOrdersTable orders) else ret ()) (\<lambda>_.
        and_then (if trades \<noteq> [] then dispatch (UpdateTradesTable trades) else ret ()) (\<lambda>_.
        dispatch (AddSuccessNotification (Text ''Order success'')))))))))))
       catch_block"

definition handleOrderPending ::
  "('o, 't, 'l, 'c) env \<Rightarrow> jsval \<Rightarrow> (('o, 't, 'l, 'c) effect, unit) comp" where
  "handleOrderPending env event =
     try_catch
       (and_then (call Call_getSigner (getSigner env)) (\<lambda>signer.
        and_then (await_getAddress signer) (\<lambda>signerAddress.
        and_then (read_prop ''payload'' event) (\<lambda>payload.
        and_then (read_prop ''matches'' payload) (\<lambda>matches.
        and_then (elems ''forEach'' matches) (\<lambda>ms.
        and_then (forEach (match_callback env signerAddress) ms ([], [])) (\<lambda>(orders, trades).
        and_then (if orders \<noteq> [] then dispatch (UpdateOrdersTable orders) else ret ()) (\<lambda>_.
        and_then (if trades \<noteq> [] then dispatch (UpdateTradesTable trades) else ret ()) (\<lambda>_.
        dispatch (AddSuccessNotification (Text ''Order pending'')))))))))))
       catch_block"

text \<open>
  The conversion of a value to a string in a template literal. It throws on an object
  that owns a property \<^verbatim>\<open>toString\<close> (a property of the wire is never a function, and the
  inherited \<^verbatim>\<open>valueOf\<close> returns the object itself). An array is converted by \<^verbatim>\<open>join\<close>,
  which converts every element but \<^verbatim>\<open>undefined\<close> and \<^verbatim>\<open>null\<close> in turn; an array that
  shadows \<^verbatim>\<open>join\<close> falls back to \<^verbatim>\<open>Object.prototype.toString\<close>.
\<close>

fun stringifies :: "jsval \<Rightarrow> bool" where
  "stringifies (JObj kvs) = (map_of kvs ''toString'' = None)"
| "stringifies (JArr xs ps) =
     (map_of ps ''toString'' = None \<and>
      (if map_of ps ''join'' = None then list_all stringifies xs else True))"
| "stringifies v = True"

definition to_string :: "jsval \<Rightarrow> (('o, 't, 'l, 'c) effect, unit) comp" where
  "to_string v = (if stringifies v then ret () else raise Language TypeError)"

text \<open>
  \<^verbatim>\<open>handleOrderError\<close> (lines 191 to 195); it has no \<^verbatim>\<open>try\<close>, so a failure rejects the
  promise of the thunk.
\<close>

definition handleOrderError ::
  "('o, 't, 'l, 'c) env \<Rightarrow> jsval \<Rightarrow> (('o, 't, 'l, 'c) effect, unit) comp" where
  "handleOrderError env event =
     and_then (read_prop ''payload'' event) (\<lambda>payload.
     and_then (to_string payload) (\<lambda>_.
     dispatch (AddDangerNotification (ErrorTemplate payload))))"

subsection \<open>The signature request\<close>

text \<open>
  \<^verbatim>\<open>await signer.signOrder(remainingOrder)\<close> (line 213): the value is the object passed,
  as the signer left it.
\<close>

definition await_signOrder ::
  "signer option \<Rightarrow> jsval \<Rightarrow> (('o, 't, 'l, 'c) effect, jsval) comp" where
  "await_signOrder s v =
     (case s of
        None \<Rightarrow> raise Language TypeError
      | Some sg \<Rightarrow> call Call_signOrder (signOrder sg v))"

text \<open>
  \<^verbatim>\<open>matches.map(match => (match.trade.tradeNonce = getRandomNonce()))\<close> (line 218), from
  the \<open>k\<close>-th call of \<^verbatim>\<open>getRandomNonce\<close> on. The value is the list of the matches after the
  writes: each match holds its trade, so a write to the trade shows in the match.
\<close>

fun assign_tradeNonces ::
  "('o, 't, 'l, 'c) env \<Rightarrow> nat \<Rightarrow> jsval list \<Rightarrow> (('o, 't, 'l, 'c) effect, jsval list) comp" where
  "assign_tradeNonces env k [] = ret []"
| "assign_tradeNonces env k (match # rest) =
     and_then (read_prop ''trade'' match) (\<lambda>trade.
     and_then (write_prop ''tradeNonce'' (getRandomNonce env k) trade) (\<lambda>trade'.
     and_then (assign_tradeNonces env (Suc k) rest) (\<lambda>rest'.
     ret (put_prop ''trade'' trade' match # rest'))))"

text \<open>
  \<^verbatim>\<open>signer.signTrade(match.trade)\<close>: the call returns a promise, which the model gives
  settled; a rejection is recorded where the call is made.
\<close>

definition promise_signTrade ::
  "signer option \<Rightarrow> jsval \<Rightarrow> (('o, 't, 'l, 'c) effect, exn + jsval) comp" where
  "promise_signTrade s trade =
     (case s of
        None \<Rightarrow> raise Language TypeError
      | Some sg \<Rightarrow>
          (case signTrade sg trade of
             Inl e \<Rightarrow> ([Raised Call_signTrade e], Inr (Inl e))
           | Inr trade' \<Rightarrow> ret (Inr trade')))"

text \<open>\<^verbatim>\<open>matches.map(match => signer.signTrade(match.trade))\<close> (line 219): the promises.\<close>

fun map_signTrade ::
  "signer option \<Rightarrow> jsval list \<Rightarrow> (('o, 't, 'l, 'c) effect, (exn + jsval) list) comp" where
  "map_signTrade s [] = ret []"
| "map_signTrade s (match # rest) =
     and_then (read_prop ''trade'' match) (\<lambda>trade.
     and_then (promise_signTrade s trade) (\<lambda>promise.
     and_then (map_signTrade s rest) (\<lambda>promises.
     ret (promise # promises))))"

text \<open>
  \<^verbatim>\<open>Promise.all\<close>: fulfilled with the values when every promise is fulfilled, and
  otherwise rejected with the reason of the promise that is rejected first, which \<open>r\<close>
  picks among the rejected ones.
\<close>

fun rejections :: "(exn + 'a) list \<Rightarrow> exn list" where
  "rejections [] = []"
| "rejections (Inl e # ps) = e # rejections ps"
| "rejections (Inr x # ps) = rejections ps"

fun fulfilments :: "(exn + 'a) list \<Rightarrow> 'a list" where
  "fulfilments [] = []"
| "fulfilments (Inl e # ps) = fulfilments ps"
| "fulfilments (Inr x # ps) = x # fulfilments ps"

definition promise_all :: "nat \<Rightarrow> (exn + 'a) list \<Rightarrow> exn + 'a list" where
  "promise_all r ps =
     (case rejections ps of
        [] \<Rightarrow> Inr (fulfilments ps)
      | e # es \<Rightarrow> Inl ((e # es) ! (r mod length (e # es))))"

definition await_all :: "nat \<Rightarrow> (exn + 'a) list \<Rightarrow> ('e, 'a list) comp" where
  "await_all r ps = (case promise_all r ps of Inl e \<Rightarrow> ([], Inl e) | Inr xs \<Rightarrow> ret xs)"

text \<open>
  The three steps of \<^verbatim>\<open>handleRequestSignature\<close>. Lines 205 to 208: the order that was
  sent is added to the order table.
\<close>

definition upsert_order ::
  "('o, 't, 'l, 'c) env \<Rightarrow> jsval \<Rightarrow> (('o, 't, 'l, 'c) effect, unit) comp" where
  "upsert_order env order =
     (if truthy order
      then and_then (call Call_parseOrder (parseOrder env order)) (\<lambda>parsedOrder.
           dispatch (UpdateOrdersTable [parsedOrder]))
      else ret ())"

text \<open>
  Lines 211 to 214: the remaining order is given a nonce and signed. The value is the
  remaining order as it is afterwards.
\<close>

definition sign_remainingOrder ::
  "('o, 't, 'l, 'c) env \<Rightarrow> signer option \<Rightarrow> jsval \<Rightarrow> (('o, 't, 'l, 'c) effect, jsval) comp" where
  "sign_remainingOrder env signer remainingOrder =
     (if truthy remainingOrder
      then and_then (write_prop ''nonce'' (getRandomNonce env 0) remainingOrder)
             (\<lambda>remainingOrder'. await_signOrder signer remainingOrder')
      else ret remainingOrder)"

text \<open>
  Lines 217 to 222: every trade is given a nonce, then all are signed and the promises
  awaited together. \<open>k\<close> counts the calls of \<^verbatim>\<open>getRandomNonce\<close> made before. The value is
  the array of matches as it is afterwards.
\<close>

definition sign_trades ::
  "('o, 't, 'l, 'c) env \<Rightarrow> signer option \<Rightarrow> nat \<Rightarrow> jsval \<Rightarrow>
     (('o, 't, 'l, 'c) effect, jsval) comp" where
  "sign_trades env signer k matches =
     (if truthy matches
      then and_then (elems ''map'' matches) (\<lambda>ms.
           and_then (assign_tradeNonces env k ms) (\<lambda>ms'.
           and_then (map_signTrade signer ms') (\<lambda>promises.
           and_then (await_all (race env) promises) (\<lambda>trades'.
           ret (with_elems (map2 (put_prop ''trade'') trades' ms') matches)))))
      else ret matches)"

text \<open>\<^verbatim>\<open>handleRequestSignature\<close> (lines 197 to 231).\<close>

definition handleRequestSignature ::
  "('o, 't, 'l, 'c) env \<Rightarrow> jsval \<Rightarrow> (('o, 't, 'l, 'c) effect, unit) comp" where
  "handleRequestSignature env event =
     try_catch
       (and_then (read_prop ''payload'' event) (\<lambda>payload.
        and_then (read_prop ''hash'' event) (\<lambda>hash.
        and_then (read_prop ''order'' payload) (\<lambda>order.
        and_then (read_prop ''remainingOrder'' payload) (\<lambda>remainingOrder.
        and_then (read_prop ''matches'' payload) (\<lambda>matches.
        and_then (call Call_getSigner (getSigner env)) (\<lambda>signer.
        and_then (upsert_order env order) (\<lambda>_.
        and_then (sign_remainingOrder env signer remainingOrder) (\<lambda>remainingOrder'.
        and_then (sign_trades env signer (if truthy remainingOrder then 1 else 0) matches)
          (\<lambda>matches'.
        and_then (dispatch (AddSuccessNotification (Text ''Signing trade''))) (\<lambda>_.
        emit (SendNewSubmitSignatureMessage hash order remainingOrder' matches'))))))))))))
       catch_block"

subsection \<open>The order book, trades and candle handlers\<close>

text \<open>\<^verbatim>\<open>handleOrderBookMessage\<close> (lines 233 to 259).\<close>

definition handleOrderBookMessage ::
  "('o, 't, 'l, 'c) env \<Rightarrow> jsval \<Rightarrow> (('o, 't, 'l, 'c) effect, unit) comp" where
  "handleOrderBookMessage env event =
     try_catch
       (and_then (read_prop ''type'' event) (\<lambda>type.
        if type = JStr ''INIT'' then
          and_then (read_prop ''payload'' event) (\<lambda>payload.
          if \<not> truthy payload then ret ()
          else if is_fresh_array payload then ret ()
          else and_then (call Call_parseOrderBookData (parseOrderBookData env payload))
                 (\<lambda>(bids, asks). dispatch (InitOrderBook bids asks)))
        else if type = JStr ''UPDATE'' then
          and_then (read_prop ''payload'' event) (\<lambda>payload.
          if \<not> truthy payload then ret ()
          else if is_fresh_array payload then ret ()
          else and_then (call Call_parseOrderBookData (parseOrderBookData env payload))
                 (\<lambda>(bids, asks). dispatch (UpdateOrderBook bids asks)))
        else ret ()))
       catch_block"

text \<open>\<^verbatim>\<open>handleTradesMessage\<close> (lines 261 to 285).\<close>

definition handleTradesMessage ::
  "('o, 't, 'l, 'c) env \<Rightarrow> jsval \<Rightarrow> (('o, 't, 'l, 'c) effect, unit) comp" where
  "handleTradesMessage env event =
     try_catch
       (and_then (read_prop ''type'' event) (\<lambda>type.
        if type = JStr ''INIT'' then
          and_then (read_prop ''payload'' event) (\<lambda>payload.
          if \<not> truthy payload then ret ()
          else if is_fresh_array payload then ret ()
          else and_then (call Call_parseTrades (parseTrades env payload))
                 (\<lambda>trades. dispatch (InitTradesTable trades)))
        else if type = JStr ''UPDATE'' then
          and_then (read_prop ''payload'' event) (\<lambda>payload.
          if \<not> truthy payload then ret ()
          else if is_fresh_array payload then ret ()
          else and_then (call Call_parseTrades (parseTrades env payload))
                 (\<lambda>trades. dispatch (UpdateTradesTable trades)))
        else ret ()))
       catch_block"

text \<open>\<^verbatim>\<open>handleOHLCVMessage\<close> (lines 287 to 312).\<close>

definition handleOHLCVMessage ::
  "('o, 't, 'l, 'c) env \<Rightarrow> jsval \<Rightarrow> (('o, 't, 'l, 'c) effect, unit) comp" where
  "handleOHLCVMessage env event =
     try_catch
       (and_then (read_prop ''type'' event) (\<lambda>type.
        if type = JStr ''INIT'' then
          and_then (read_prop ''payload'' event) (\<lambda>payload.
          if \<not> truthy payload then ret ()
          else if is_fresh_array payload then ret ()
          else and_then (call Call_parseOHLCV (parseOHLCV env payload))
                 (\<lambda>ohlcv. dispatch (InitOHLCV ohlcv)))
        else if type = JStr ''UPDATE'' then
          and_then (read_prop ''payload'' event) (\<lambda>payload.
          if \<not> truthy payload then ret ()
          else if is_fresh_array payload then ret ()
          else and_then (call Call_parseOHLCV (parseOHLCV env payload))
                 (\<lambda>ohlcv. dispatch (UpdateOHLCV ohlcv)))
        else ret ()))
       catch_block"

subsection \<open>Routing\<close>

text \<open>
  \<^verbatim>\<open>dispatch(thunk)\<close> of an \<^verbatim>\<open>async\<close> thunk: the thunk's effects happen, and the value is a
  promise, so a failure the thunk does not catch rejects the promise and is not thrown to
  the caller.
\<close>

definition dispatch_thunk :: "('e, unit) comp \<Rightarrow> ('e, unit) comp" where
  "dispatch_thunk m = (fst m, Inr ())"

text \<open>\<^verbatim>\<open>handleOrderMessage\<close> (lines 78 to 98).\<close>

definition handleOrderMessage ::
  "('o, 't, 'l, 'c) env \<Rightarrow> jsval \<Rightarrow> (('o, 't, 'l, 'c) effect, unit) comp" where
  "handleOrderMessage env event =
     and_then (read_prop ''type'' event) (\<lambda>type.
     if type = JStr ''ORDER_ADDED'' then dispatch_thunk (handleOrderAdded env event)
     else if type = JStr ''ORDER_CANCELLED'' then dispatch_thunk (handleOrderCancelled env event)
     else if type = JStr ''ORDER_SUCCESS'' then dispatch_thunk (handleOrderSuccess env event)
     else if type = JStr ''ORDER_PENDING'' then dispatch_thunk (handleOrderPending env event)
     else if type = JStr ''REQUEST_SIGNATURE'' then dispatch_thunk (handleRequestSignature env event)
     else if type = JStr ''ERROR'' then dispatch_thunk (handleOrderError env event)
     else ret ())"

text \<open>The callback given to \<^verbatim>\<open>socket.onMessage\<close> (lines 40 to 58).\<close>

definition onMessage ::
  "('o, 't, 'l, 'c) env \<Rightarrow> jsval \<Rightarrow> (('o, 't, 'l, 'c) effect, unit) comp" where
  "onMessage env message =
     and_then (read_prop ''channel'' message) (\<lambda>channel.
     and_then (read_prop ''event'' message) (\<lambda>event.
     if channel = JStr ''orders'' then handleOrderMessage env event
     else if channel = JStr ''orderbook'' then handleOrderBookMessage env event
     else if channel = JStr ''trades'' then handleTradesMessage env event
     else if channel = JStr ''ohlcv'' then handleOHLCVMessage env event
     else ret ()))"

subsection \<open>The connection and its timers\<close>

text \<open>
  The state the connection code acts on: the time in milliseconds, the timeouts that are
  pending (each with the time it is due), and the effects performed so far. The only
  callback ever given to \<^verbatim>\<open>setTimeout\<close> is \<^verbatim>\<open>() => dispatch(openConnection())\<close> (line 70).
\<close>

datatype task = Reconnect

record ('o, 't, 'l, 'c) conn =
  clock :: nat
  timers :: "(nat \<times> task) list"
  performed :: "('o, 't, 'l, 'c) effect list"

definition perform ::
  "('o, 't, 'l, 'c) effect list \<Rightarrow> ('o, 't, 'l, 'c) conn \<Rightarrow> ('o, 't, 'l, 'c) conn" where
  "perform efs s = s\<lparr>performed := performed s @ efs\<rparr>"

text \<open>
  \<^verbatim>\<open>openConnection\<close> (lines 21 to 65): it creates the connection, dispatches
  \<^verbatim>\<open>createConnection\<close>, installs the lifecycle callback and the message callback, and
  returns the teardown handle, which is \<open>teardown\<close> below.
\<close>

definition openConnection :: "('o, 't, 'l, 'c) conn \<Rightarrow> ('o, 't, 'l, 'c) conn" where
  "openConnection s =
     perform [SocketCreateConnection, Dispatch CreateConnection, SocketOpenConnection,
       SocketOnMessage] s"

text \<open>The handle \<^verbatim>\<open>openConnection\<close> returns (lines 60 to 63).\<close>

definition teardown :: "('o, 't, 'l, 'c) conn \<Rightarrow> ('o, 't, 'l, 'c) conn" where
  "teardown s = perform [SocketCloseConnection, Dispatch CloseConnection] s"

text \<open>\<^verbatim>\<open>setTimeout(f, delay)\<close>: \<open>f\<close> is due \<open>delay\<close> milliseconds from now.\<close>

definition setTimeout :: "task \<Rightarrow> nat \<Rightarrow> ('o, 't, 'l, 'c) conn \<Rightarrow> ('o, 't, 'l, 'c) conn" where
  "setTimeout f delay s = s\<lparr>timers := timers s @ [(clock s + delay, f)]\<rparr>"

text \<open>\<^verbatim>\<open>handleWebsocketCloseMessage\<close> and \<^verbatim>\<open>handleWebsocketErrorMessage\<close> (lines 67 to 76).\<close>

definition handleWebsocketCloseMessage :: "('o, 't, 'l, 'c) conn \<Rightarrow> ('o, 't, 'l, 'c) conn" where
  "handleWebsocketCloseMessage s =
     setTimeout Reconnect 5000
       (perform [Dispatch (AddDangerNotification (Text ''Connection lost''))] s)"

definition handleWebsocketErrorMessage :: "('o, 't, 'l, 'c) conn \<Rightarrow> ('o, 't, 'l, 'c) conn" where
  "handleWebsocketErrorMessage s = s"

text \<open>The lifecycle callback given to \<^verbatim>\<open>socket.openConnection\<close> (lines 27 to 38).\<close>

definition onLifecycle :: "string \<Rightarrow> ('o, 't, 'l, 'c) conn \<Rightarrow> ('o, 't, 'l, 'c) conn" where
  "onLifecycle type s =
     (if type = ''close'' then handleWebsocketCloseMessage s
      else if type = ''error'' then handleWebsocketErrorMessage s
      else if type = ''open'' then
        perform [Dispatch (AddSuccessNotification (Text ''Reconnected''))] s
      else s)"

text \<open>Running the callback of a timeout.\<close>

fun run_task :: "task \<Rightarrow> ('o, 't, 'l, 'c) conn \<Rightarrow> ('o, 't, 'l, 'c) conn" where
  "run_task Reconnect s = openConnection s"

text \<open>
  \<open>d\<close> milliseconds pass: the timeouts that have become due run, in the order they were
  set, and leave the list of the pending ones.
\<close>

definition elapse :: "nat \<Rightarrow> ('o, 't, 'l, 'c) conn \<Rightarrow> ('o, 't, 'l, 'c) conn" where
  "elapse d s =
     (let now = clock s + d;
          due = filter (\<lambda>(t, f). t \<le> now) (timers s);
          pending = filter (\<lambda>(t, f). \<not> t \<le> now) (timers s)
      in fold (\<lambda>(t, f). run_task f) due (s\<lparr>clock := now, timers := pending\<rparr>))"

text \<open>The state in which the application starts.\<close>

definition initial :: "('o, 't, 'l, 'c) conn" where
  "initial = \<lparr>clock = 0, timers = [], performed = []\<rparr>"

subsection \<open>The tables of the store\<close>

text \<open>The actions that write to the order, trade, order book and candle tables.\<close>

fun is_table_action :: "('o, 't, 'l, 'c) action \<Rightarrow> bool" where
  "is_table_action (UpdateOrdersTable os) = True"
| "is_table_action (UpdateTradesTable ts) = True"
| "is_table_action (InitTradesTable ts) = True"
| "is_table_action (InitOrderBook b a) = True"
| "is_table_action (UpdateOrderBook b a) = True"
| "is_table_action (InitOHLCV c) = True"
| "is_table_action (UpdateOHLCV c) = True"
| "is_table_action a = False"

text \<open>
  Modelled from the spec: the reducers of the table stores are not part of the
  controller; the tables accept the batched upsert and replace calls and change through
  nothing else. \<open>reduce\<close> is the reducer of the tables, \<open>tb\<close> their content.
\<close>

fun apply_effect ::
  "(('o, 't, 'l, 'c) action \<Rightarrow> 'tb \<Rightarrow> 'tb) \<Rightarrow> ('o, 't, 'l, 'c) effect \<Rightarrow> 'tb \<Rightarrow> 'tb" where
  "apply_effect reduce (Dispatch a) tb = (if is_table_action a then reduce a tb else tb)"
| "apply_effect reduce ef tb = tb"

definition tables_after ::
  "(('o, 't, 'l, 'c) action \<Rightarrow> 'tb \<Rightarrow> 'tb) \<Rightarrow> ('o, 't, 'l, 'c) effect list \<Rightarrow> 'tb \<Rightarrow> 'tb" where
  "tables_after reduce tr tb = fold (apply_effect reduce) tr tb"

text \<open>The failures among the effects, and the writes to the tables.\<close>

fun is_failure :: "('o, 't, 'l, 'c) effect \<Rightarrow> bool" where
  "is_failure (Raised s e) = True"
| "is_failure ef = False"

fun is_table_update :: "('o, 't, 'l, 'c) effect \<Rightarrow> bool" where
  "is_table_update (Dispatch a) = is_table_action a"
| "is_table_update ef = False"

subsection \<open>The membership tests\<close>

text \<open>The value of \<^verbatim>\<open>v.name\<close> where the read does not throw.\<close>

definition field :: "string \<Rightarrow> jsval \<Rightarrow> jsval" where
  "field n v = (case get_prop n v of Inr x \<Rightarrow> x | Inl e \<Rightarrow> JUndefined)"

text \<open>
  The comparison of lines 141, 144, 171 and 175,
  \<^verbatim>\<open>utils.getAddress(a) === signerAddress\<close>, as a predicate: the address of the payload is
  normalised, the address the signer returned is taken as it is.
\<close>

definition same_address :: "('o, 't, 'l, 'c) env \<Rightarrow> jsval \<Rightarrow> jsval \<Rightarrow> bool" where
  "same_address env a signerAddress =
     (case utils_getAddress env a of Inr c \<Rightarrow> JStr c = signerAddress | Inl e \<Rightarrow> False)"

text \<open>The test of lines 141 and 171 on a match: the owner of its order.\<close>

definition owner_is_local :: "('o, 't, 'l, 'c) env \<Rightarrow> jsval \<Rightarrow> jsval \<Rightarrow> bool" where
  "owner_is_local env signerAddress match =
     same_address env (field ''userAddress'' (field ''order'' match)) signerAddress"

text \<open>The test of lines 144 and 175 on a match: the maker or the taker of its trade.\<close>

definition party_is_local :: "('o, 't, 'l, 'c) env \<Rightarrow> jsval \<Rightarrow> jsval \<Rightarrow> bool" where
  "party_is_local env signerAddress match =
     (same_address env (field ''maker'' (field ''trade'' match)) signerAddress \<or>
      same_address env (field ''taker'' (field ''trade'' match)) signerAddress)"

text \<open>
  Address equality as the specification words it: both addresses are valid and have the
  same canonical form, so they denote one account.
\<close>

definition same_account :: "('o, 't, 'l, 'c) env \<Rightarrow> jsval \<Rightarrow> jsval \<Rightarrow> bool" where
  "same_account env a b =
     (case utils_getAddress env a of Inr c \<Rightarrow> utils_getAddress env b = Inr c | Inl e \<Rightarrow> False)"

text \<open>
  A match the callback of \<^verbatim>\<open>forEach\<close> gets through: it has an order and a trade, the
  addresses the callback normalises are valid (the taker is looked at only when the maker
  is not the local address), and the parsers accept the order and the trade whenever the
  callback calls them.
\<close>

definition processable :: "('o, 't, 'l, 'c) env \<Rightarrow> jsval \<Rightarrow> jsval \<Rightarrow> bool" where
  "processable env signerAddress match =
     (case get_prop ''order'' match of Inl e \<Rightarrow> False | Inr order \<Rightarrow>
     (case get_prop ''trade'' match of Inl e \<Rightarrow> False | Inr trade \<Rightarrow>
     (case get_prop ''userAddress'' order of Inl e \<Rightarrow> False | Inr userAddress \<Rightarrow>
     (case utils_getAddress env userAddress of Inl e \<Rightarrow> False | Inr owner \<Rightarrow>
       (if JStr owner = signerAddress then \<not> isl (parseOrder env order) else True) \<and>
     (case get_prop ''maker'' trade of Inl e \<Rightarrow> False | Inr maker \<Rightarrow>
     (case utils_getAddress env maker of Inl e \<Rightarrow> False | Inr makerAddress \<Rightarrow>
       (if JStr makerAddress = signerAddress then \<not> isl (parseTrade env trade)
        else
     (case get_prop ''taker'' trade of Inl e \<Rightarrow> False | Inr taker \<Rightarrow>
     (case utils_getAddress env taker of Inl e \<Rightarrow> False | Inr takerAddress \<Rightarrow>
       (if JStr takerAddress = signerAddress then \<not> isl (parseTrade env trade)
        else True))))))))))"

subsection \<open>Auxiliary notions\<close>

text \<open>The values a property can be written to: objects and arrays.\<close>

fun writable :: "jsval \<Rightarrow> bool" where
  "writable (JObj kvs) = True"
| "writable (JArr xs ps) = True"
| "writable v = False"

text \<open>The failures of the parsers.\<close>

fun is_parse_site :: "site \<Rightarrow> bool" where
  "is_parse_site Call_parseOrder = True"
| "is_parse_site Call_parseTrade = True"
| "is_parse_site Call_parseTrades = True"
| "is_parse_site Call_parseOrderBookData = True"
| "is_parse_site Call_parseOHLCV = True"
| "is_parse_site s = False"

text \<open>The submission messages among the effects.\<close>

fun is_send :: "('o, 't, 'l, 'c) effect \<Rightarrow> bool" where
  "is_send (SendNewSubmitSignatureMessage h ord r m) = True"
| "is_send ef = False"

text \<open>
  The text \<^verbatim>\<open>handleOrderSuccess\<close> and \<^verbatim>\<open>handleOrderPending\<close> share, with the message of
  the success notification as a parameter: it serves to prove facts about both at once.
\<close>

definition on_matches ::
  "string \<Rightarrow> ('o, 't, 'l, 'c) env \<Rightarrow> jsval \<Rightarrow> (('o, 't, 'l, 'c) effect, unit) comp" where
  "on_matches label env event =
     try_catch
       (and_then (call Call_getSigner (getSigner env)) (\<lambda>signer.
        and_then (await_getAddress signer) (\<lambda>signerAddress.
        and_then (read_prop ''payload'' event) (\<lambda>payload.
        and_then (read_prop ''matches'' payload) (\<lambda>matches.
        and_then (elems ''forEach'' matches) (\<lambda>ms.
        and_then (forEach (match_callback env signerAddress) ms ([], [])) (\<lambda>(orders, trades).
        and_then (if orders \<noteq> [] then dispatch (UpdateOrdersTable orders) else ret ()) (\<lambda>_.
        and_then (if trades \<noteq> [] then dispatch (UpdateTradesTable trades) else ret ()) (\<lambda>_.
        dispatch (AddSuccessNotification (Text label)))))))))))
       catch_block"

text \<open>
  A computation is silent when it performs no effect, or fails at once and performs
  nothing but the record of its failure.
\<close>

definition silent :: "(('o, 't, 'l, 'c) effect, 'a) comp \<Rightarrow> bool" where
  "silent m \<longleftrightarrow> (\<exists>x. m = ([], Inr x)) \<or> (\<exists>s e. m = ([Raised s e], Inl e))"

subsection \<open>An example environment\<close>

text \<open>
  An instance of \<^verbatim>\<open>utils.getAddress\<close> for the examples: it agrees with ethers on two
  accounts of the EIP-55 test vectors, each in its lower-case and in its checksum
  spelling, and rejects every other argument.
\<close>

definition eip55_getAddress :: "jsval \<Rightarrow> exn + string" where
  "eip55_getAddress v =
     (if v = JStr ''0x5aaeb6053f3e94c9b9a09f33669435e7ef1beaed'' \<or>
         v = JStr ''0x5aAeb6053F3E94C9b9A09f33669435E7Ef1BeAed''
      then Inr ''0x5aAeb6053F3E94C9b9A09f33669435E7Ef1BeAed''
      else if v = JStr ''0xfb6916095ca1df60bb79ce92ce3ea74c37c5d359'' \<or>
         v = JStr ''0xfB6916095ca1df60bB79Ce92cE3Ea74c37c5d359''
      then Inr ''0xfB6916095ca1df60bB79Ce92cE3Ea74c37c5d359''
      else Inl (Failure ''invalid address''))"

text \<open>Parsers for the examples: they accept an object, an array, a pair of book sides.\<close>

definition parse_object :: "jsval \<Rightarrow> exn + jsval" where
  "parse_object v = (case v of JObj kvs \<Rightarrow> Inr v | _ \<Rightarrow> Inl (Failure ''malformed payload''))"

definition parse_array :: "jsval \<Rightarrow> exn + jsval list" where
  "parse_array v = (case v of JArr xs ps \<Rightarrow> Inr xs | _ \<Rightarrow> Inl (Failure ''malformed payload''))"

definition parse_book :: "jsval \<Rightarrow> exn + jsval \<times> jsval" where
  "parse_book v =
     (case v of
        JObj kvs \<Rightarrow>
          (case (map_of kvs ''bids'', map_of kvs ''asks'') of
             (Some b, Some a) \<Rightarrow> Inr (b, a)
           | _ \<Rightarrow> Inl (Failure ''malformed payload''))
      | _ \<Rightarrow> Inl (Failure ''malformed payload''))"

text \<open>A signer that writes a signature into the object it is given.\<close>

definition example_signer :: signer where
  "example_signer =
     \<lparr>getAddress = Inr (JStr ''0x5aAeb6053F3E94C9b9A09f33669435E7Ef1BeAed''),
      signOrder = (\<lambda>v. Inr (put_prop ''signature'' (JStr ''0x1b'') v)),
      signTrade = (\<lambda>v. Inr (put_prop ''signature'' (JStr ''0x1c'') v))\<rparr>"

definition example_env :: "(jsval, jsval, jsval, jsval) env" where
  "example_env =
     \<lparr>getSigner = Inr (Some example_signer),
      getRandomNonce = (\<lambda>k. JNum (41 + real k)),
      utils_getAddress = eip55_getAddress,
      parseOrder = parse_object,
      parseTrade = parse_object,
      parseTrades = parse_array,
      parseOrderBookData = parse_book,
      parseOHLCV = parse_object,
      race = 0\<rparr>"

text \<open>The same environment with no wallet: \<^verbatim>\<open>getSigner\<close> throws.\<close>

definition locked_env :: "(jsval, jsval, jsval, jsval) env" where
  "locked_env = example_env\<lparr>getSigner := Inl (Failure ''wallet is locked'')\<rparr>"

text \<open>The same environment with a signer that returns its address in lower case.\<close>

definition lowercase_env :: "(jsval, jsval, jsval, jsval) env" where
  "lowercase_env =
     example_env\<lparr>getSigner := Inr (Some (example_signer
       \<lparr>getAddress := Inr (JStr ''0x5aaeb6053f3e94c9b9a09f33669435e7ef1beaed'')\<rparr>))\<rparr>"

text \<open>
  Three matches: in the first the local account (spelled in lower case) owns the order and
  is the maker; the second is between other parties; in the third the local account is
  the taker only.
\<close>

definition local_match :: jsval where
  "local_match =
     JObj [(''order'', JObj [(''userAddress'', JStr ''0x5aaeb6053f3e94c9b9a09f33669435e7ef1beaed'')]),
           (''trade'', JObj [(''maker'', JStr ''0x5aaeb6053f3e94c9b9a09f33669435e7ef1beaed''),
                            (''taker'', JStr ''0xfb6916095ca1df60bb79ce92ce3ea74c37c5d359'')])]"

definition foreign_match :: jsval where
  "foreign_match =
     JObj [(''order'', JObj [(''userAddress'', JStr ''0xfb6916095ca1df60bb79ce92ce3ea74c37c5d359'')]),
           (''trade'', JObj [(''maker'', JStr ''0xfb6916095ca1df60bb79ce92ce3ea74c37c5d359''),
                            (''taker'', JStr ''0xfB6916095ca1df60bB79Ce92cE3Ea74c37c5d359'')])]"

definition taker_match :: jsval where
  "taker_match =
     JObj [(''order'', JObj [(''userAddress'', JStr ''0xfb6916095ca1df60bb79ce92ce3ea74c37c5d359'')]),
           (''trade'', JObj [(''maker'', JStr ''0xfb6916095ca1df60bb79ce92ce3ea74c37c5d359''),
                            (''taker'', JStr ''0x5aAeb6053F3E94C9b9A09f33669435E7Ef1BeAed''),
                            (''amount'', JNum 3)])]"

definition matches_event :: "string \<Rightarrow> jsval list \<Rightarrow> jsval" where
  "matches_event type ms =
     JObj [(''type'', JStr type), (''payload'', JObj [(''matches'', JArr ms [])])]"

text \<open>A signature request with an order, a remaining order and two matches.\<close>

definition signature_event :: jsval where
  "signature_event =
     JObj [(''type'', JStr ''REQUEST_SIGNATURE''), (''hash'', JStr ''0xabc''),
           (''payload'', JObj
              [(''order'', JObj [(''id'', JStr ''o1'')]),
               (''remainingOrder'', JObj [(''amount'', JNum 2)]),
               (''matches'', JArr
                  [JObj [(''trade'', JObj [(''amount'', JNum 1)])],
                   JObj [(''trade'', JObj [(''amount'', JNum 2)])]] [])])]"

text \<open>The same environment with a signer that refuses to sign trades.\<close>

definition refusing_env :: "(jsval, jsval, jsval, jsval) env" where
  "refusing_env =
     example_env\<lparr>getSigner := Inr (Some (example_signer
       \<lparr>signTrade := (\<lambda>v. Inl (Failure ''signature denied''))\<rparr>))\<rparr>"

text \<open>A match whose order has an owner that is no address.\<close>

definition invalid_match :: jsval where
  "invalid_match =
     JObj [(''order'', JObj [(''userAddress'', JStr ''0x123'')]),
           (''trade'', JObj [(''maker'', JStr ''0xfb6916095ca1df60bb79ce92ce3ea74c37c5d359''),
                            (''taker'', JStr ''0xfb6916095ca1df60bb79ce92ce3ea74c37c5d359'')])]"

text \<open>A parser of trades that insists on an amount, and the example environment with it.\<close>

definition parse_with_amount :: "jsval \<Rightarrow> exn + jsval" where
  "parse_with_amount v =
     (case v of
        JObj kvs \<Rightarrow>
          (case map_of kvs ''amount'' of
             Some a \<Rightarrow> Inr v
           | None \<Rightarrow> Inl (Failure ''amount is missing''))
      | _ \<Rightarrow> Inl (Failure ''malformed payload''))"

definition strict_env :: "(jsval, jsval, jsval, jsval) env" where
  "strict_env = example_env\<lparr>parseTrade := parse_with_amount\<rparr>"

text \<open>A message of the wire: a channel and an event with its type and payload.\<close>

definition wire_message :: "string \<Rightarrow> string \<Rightarrow> jsval \<Rightarrow> jsval" where
  "wire_message channel type payload =
     JObj [(''channel'', JStr channel),
           (''event'', JObj [(''type'', JStr type), (''payload'', payload)])]"

section \<open>Properties\<close>

subsection \<open>Sequencing\<close>

lemma and_then_Inl [simp]: "and_then (tr, Inl e) f = (tr, Inl e)"
  by (simp add: and_then_def)

lemma and_then_Inr [simp]:
  "and_then (tr, Inr x) f = (case f x of (tr', r) \<Rightarrow> (tr @ tr', r))"
  by (simp add: and_then_def)

lemma try_catch_Inl [simp]:
  "try_catch (tr, Inl e) h = (case h e of (tr', r) \<Rightarrow> (tr @ tr', r))"
  by (simp add: try_catch_def)

lemma try_catch_Inr [simp]: "try_catch (tr, Inr x) h = (tr, Inr x)"
  by (simp add: try_catch_def)

lemma and_then_ret [simp]: "and_then (ret x) f = f x"
  by (simp add: ret_def)

lemma and_then_raise [simp]: "and_then (raise s e) f = raise s e"
  by (simp add: raise_def)

lemma call_Inl [simp]: "call s (Inl e) = raise s e"
  by (simp add: call_def)

lemma call_Inr [simp]: "call s (Inr x) = ret x"
  by (simp add: call_def)

lemma try_catch_raise [simp]:
  "try_catch (raise s e) catch_block =
     ([Raised s e, Dispatch (AddDangerNotification (MessageOf e))], Inr ())"
  by (simp add: raise_def catch_block_def dispatch_def emit_def)

lemma read_prop_Inr [simp]: "get_prop n v = Inr x \<Longrightarrow> read_prop n v = ret x"
  by (simp add: read_prop_def)

lemma read_prop_Inl [simp]: "get_prop n v = Inl e \<Longrightarrow> read_prop n v = raise Language e"
  by (simp add: read_prop_def)

subsection \<open>Order success and order pending without a signer\<close>

text \<open>
  Claim C10. When \<^verbatim>\<open>getSigner\<close> throws, or returns no signer, or the signer's
  \<^verbatim>\<open>getAddress\<close> is rejected, \<^verbatim>\<open>handleOrderSuccess\<close> and \<^verbatim>\<open>handleOrderPending\<close> do nothing but
  dispatch one danger notification that carries the message of the failure: no table is
  updated, no success notification is dispatched, and the handler ends normally.
\<close>

theorem order_success_without_signer:
  assumes "getSigner env = Inl e \<or> (getSigner env = Inr None \<and> e = TypeError) \<or>
           (\<exists>sg. getSigner env = Inr (Some sg) \<and> getAddress sg = Inl e)"
  shows "\<exists>s. handleOrderSuccess env event =
                ([Raised s e, Dispatch (AddDangerNotification (MessageOf e))], Inr ()) \<and>
              handleOrderPending env event =
                ([Raised s e, Dispatch (AddDangerNotification (MessageOf e))], Inr ())"
  using assms
  by (auto simp: handleOrderSuccess_def handleOrderPending_def await_getAddress_def)

theorem order_success_without_signer_witness:
  "getSigner locked_env = Inl (Failure ''wallet is locked'') \<and>
   (\<exists>s. handleOrderSuccess locked_env (JObj []) =
           ([Raised s (Failure ''wallet is locked''),
             Dispatch (AddDangerNotification (MessageOf (Failure ''wallet is locked'')))], Inr ()) \<and>
         handleOrderPending locked_env (JObj []) =
           ([Raised s (Failure ''wallet is locked''),
             Dispatch (AddDangerNotification (MessageOf (Failure ''wallet is locked'')))], Inr ()))"
  using order_success_without_signer [of locked_env "Failure ''wallet is locked''" "JObj []"]
  by (simp add: locked_env_def)

subsection \<open>A signature request with nothing to sign\<close>





subsection \<open>Initialising and updating with an empty dataset\<close>

text \<open>
  Claim C4. The claim says that an \<^verbatim>\<open>INIT\<close> or \<^verbatim>\<open>UPDATE\<close> whose payload is an empty dataset
  is a no-op. The guard \<^verbatim>\<open>event.payload === []\<close> never holds, so on the empty array the
  three handlers call their parser and then dispatch either the table action or a danger
  notification: they are never a no-op there.
\<close>

theorem empty_dataset_is_parsed:
  "handleOrderBookMessage env (JObj [(''type'', JStr ''INIT''), (''payload'', JArr [] [])]) =
     (case parseOrderBookData env (JArr [] []) of
        Inl e \<Rightarrow> ([Raised Call_parseOrderBookData e,
                   Dispatch (AddDangerNotification (MessageOf e))], Inr ())
      | Inr (bids, asks) \<Rightarrow> ([Dispatch (InitOrderBook bids asks)], Inr ())) \<and>
   handleTradesMessage env (JObj [(''type'', JStr ''UPDATE''), (''payload'', JArr [] [])]) =
     (case parseTrades env (JArr [] []) of
        Inl e \<Rightarrow> ([Raised Call_parseTrades e,
                   Dispatch (AddDangerNotification (MessageOf e))], Inr ())
      | Inr trades \<Rightarrow> ([Dispatch (UpdateTradesTable trades)], Inr ())) \<and>
   handleOHLCVMessage env (JObj [(''type'', JStr ''INIT''), (''payload'', JArr [] [])]) =
     (case parseOHLCV env (JArr [] []) of
        Inl e \<Rightarrow> ([Raised Call_parseOHLCV e,
                   Dispatch (AddDangerNotification (MessageOf e))], Inr ())
      | Inr ohlcv \<Rightarrow> ([Dispatch (InitOHLCV ohlcv)], Inr ()))"
  by (simp add: handleOrderBookMessage_def handleTradesMessage_def handleOHLCVMessage_def
      is_fresh_array_def dispatch_def emit_def split: sum.splits prod.splits)

subsection \<open>Opening and closing the connection\<close>

text \<open>
  Claim C8, as amended. The notification \<^verbatim>\<open>Reconnected\<close> is dispatched on every \<^verbatim>\<open>open\<close>
  lifecycle event, in whatever state the event arrives, so also on the first opening with
  no close before it; the event does nothing else: no timeout is set or cleared and no
  message is replayed.
\<close>

theorem reconnected_on_every_open:
  "onLifecycle ''open'' s =
     s\<lparr>performed := performed s @ [Dispatch (AddSuccessNotification (Text ''Reconnected''))]\<rparr>"
  by (simp add: onLifecycle_def perform_def)

text \<open>The first opening of the first connection is announced as a reconnection.\<close>

theorem reconnected_on_first_open:
  "performed (onLifecycle ''open'' (openConnection (initial :: (unit, unit, unit, unit) conn))) =
     [SocketCreateConnection, Dispatch CreateConnection, SocketOpenConnection, SocketOnMessage,
      Dispatch (AddSuccessNotification (Text ''Reconnected''))]"
  by (simp add: onLifecycle_def perform_def openConnection_def initial_def)

text \<open>
  Claim C6, as amended. A \<^verbatim>\<open>close\<close> lifecycle event dispatches the danger notification
  \<^verbatim>\<open>Connection lost\<close> and sets exactly one timeout, due 5000 ms later, that runs
  \<^verbatim>\<open>openConnection\<close> again. The teardown handle leaves the timeouts as they are: when it is
  called \<open>d < 5000\<close> ms after the close, the timeout is still pending, and once the 5000 ms
  have passed the reconnection runs.
\<close>

theorem reconnect_survives_teardown:
  "onLifecycle ''close'' s =
     s\<lparr>performed := performed s @ [Dispatch (AddDangerNotification (Text ''Connection lost''))],
       timers := timers s @ [(clock s + 5000, Reconnect)]\<rparr> \<and>
   timers (teardown s) = timers s \<and>
   (timers s = [] \<longrightarrow> d < 5000 \<longrightarrow>
      elapse d (onLifecycle ''close'' s) = (onLifecycle ''close'' s)\<lparr>clock := clock s + d\<rparr> \<and>
      elapse (5000 - d) (teardown (elapse d (onLifecycle ''close'' s))) =
        s\<lparr>clock := clock s + 5000, timers := [],
          performed := performed s @
            [Dispatch (AddDangerNotification (Text ''Connection lost'')),
             SocketCloseConnection, Dispatch CloseConnection,
             SocketCreateConnection, Dispatch CreateConnection, SocketOpenConnection,
             SocketOnMessage]\<rparr>)"
  by (simp add: onLifecycle_def handleWebsocketCloseMessage_def setTimeout_def perform_def
      teardown_def elapse_def Let_def openConnection_def)

theorem reconnect_survives_teardown_witness:
  "timers (openConnection (initial :: (unit, unit, unit, unit) conn)) = [] \<and>
   (4999 :: nat) < 5000 \<and>
   performed (elapse (5000 - 4999) (teardown (elapse 4999 (onLifecycle ''close''
      (openConnection (initial :: (unit, unit, unit, unit) conn)))))) =
     [SocketCreateConnection, Dispatch CreateConnection, SocketOpenConnection, SocketOnMessage,
      Dispatch (AddDangerNotification (Text ''Connection lost'')),
      SocketCloseConnection, Dispatch CloseConnection,
      SocketCreateConnection, Dispatch CreateConnection, SocketOpenConnection, SocketOnMessage]"
  using reconnect_survives_teardown
    [of "openConnection (initial :: (unit, unit, unit, unit) conn)" 4999]
  by (simp add: onLifecycle_def handleWebsocketCloseMessage_def setTimeout_def perform_def
      teardown_def elapse_def Let_def openConnection_def initial_def)

text \<open>
  The connection closes, the teardown handle is called one second later, and four seconds
  after that the reconnection runs all the same.
\<close>

theorem reconnect_after_teardown:
  "performed (elapse 4000 (teardown (elapse 1000 (onLifecycle ''close''
      (openConnection (initial :: (unit, unit, unit, unit) conn)))))) =
     [SocketCreateConnection, Dispatch CreateConnection, SocketOpenConnection, SocketOnMessage,
      Dispatch (AddDangerNotification (Text ''Connection lost'')),
      SocketCloseConnection, Dispatch CloseConnection,
      SocketCreateConnection, Dispatch CreateConnection, SocketOpenConnection, SocketOnMessage]"
  by (simp add: onLifecycle_def handleWebsocketCloseMessage_def setTimeout_def perform_def
      teardown_def elapse_def Let_def openConnection_def initial_def)

subsection \<open>Silent computations and the successful path\<close>

lemma silent_ret [simp]: "silent (ret x)"
  by (simp add: silent_def ret_def)

lemma silent_raise [simp]: "silent (raise s e)"
  by (simp add: silent_def raise_def)

lemma silent_call [simp]: "silent (call s r)"
  by (cases r) simp_all

lemma silent_read_prop [simp]: "silent (read_prop n v)"
  by (simp add: read_prop_def)

lemma silent_write_prop [simp]: "silent (write_prop n v obj)"
  by (simp add: write_prop_def)

lemma silent_elems [simp]: "silent (elems n v)"
  by (simp add: elems_def)

lemma silent_and_then [intro!]: "silent m \<Longrightarrow> (\<And>x. silent (f x)) \<Longrightarrow> silent (and_then m f)"
  by (fastforce simp: silent_def)

lemma silent_if [intro!]: "silent a \<Longrightarrow> silent b \<Longrightarrow> silent (if c then a else b)"
  by simp

lemma and_then_Inr_iff:
  "and_then m f = (tr, Inr y) \<longleftrightarrow>
     (\<exists>tr1 x tr2. m = (tr1, Inr x) \<and> f x = (tr2, Inr y) \<and> tr = tr1 @ tr2)"
  by (cases m; cases "snd m") (auto simp: and_then_def split: prod.splits)

lemma ret_Inr_iff: "ret x = (tr, Inr y) \<longleftrightarrow> x = y \<and> tr = []"
  by (auto simp: ret_def)

lemma raise_Inr_iff: "raise s e = (tr, Inr y) \<longleftrightarrow> False"
  by (simp add: raise_def)

lemma call_Inr_iff: "call s r = (tr, Inr x) \<longleftrightarrow> r = Inr x \<and> tr = []"
  by (cases r) (auto simp: ret_Inr_iff raise_Inr_iff)

lemma read_prop_Inr_iff: "read_prop n v = (tr, Inr x) \<longleftrightarrow> get_prop n v = Inr x \<and> tr = []"
  by (simp add: read_prop_def call_Inr_iff)

lemmas Inr_iffs = and_then_Inr_iff ret_Inr_iff raise_Inr_iff call_Inr_iff read_prop_Inr_iff

lemma silent_match_callback: "silent (match_callback env sa m b)"
  by (cases b) (auto simp: match_callback_def)

subsection \<open>The batches of order success and order pending\<close>

lemma match_callback_Inr:
  assumes "match_callback env sa m (os, ts) = (tr, Inr (os', ts'))"
  shows "\<exists>os1 ts1. os' = os @ os1 \<and> ts' = ts @ ts1 \<and>
      map Inr os1 = map (\<lambda>m. parseOrder env (field ''order'' m)) (filter (owner_is_local env sa) [m]) \<and>
      map Inr ts1 = map (\<lambda>m. parseTrade env (field ''trade'' m)) (filter (party_is_local env sa) [m])"
  using assms
  apply (simp add: match_callback_def)
  apply (cases "get_prop ''order'' m"; simp add: raise_def)
  apply (cases "get_prop ''trade'' m"; simp add: raise_def)
  apply (cases "get_prop ''userAddress'' (field ''order'' m)"; simp add: raise_def field_def)
  apply (cases "utils_getAddress env (field ''userAddress'' (field ''order'' m))";
      simp add: raise_def field_def)
  apply (cases "get_prop ''maker'' (field ''trade'' m)"; simp add: raise_def field_def)
  apply (cases "utils_getAddress env (field ''maker'' (field ''trade'' m))";
      simp add: raise_def field_def)
  apply (auto simp: Inr_iffs owner_is_local_def party_is_local_def same_address_def field_def
      split: if_splits)
  done

lemma silent_forEach: "(\<And>x a. silent (f x a)) \<Longrightarrow> silent (forEach f xs acc)"
  by (induction xs arbitrary: acc) auto

lemma forEach_match_Inr:
  "forEach (match_callback env sa) ms (os, ts) = (tr, Inr (os', ts')) \<Longrightarrow>
   \<exists>os1 ts1. os' = os @ os1 \<and> ts' = ts @ ts1 \<and>
      map Inr os1 = map (\<lambda>m. parseOrder env (field ''order'' m)) (filter (owner_is_local env sa) ms) \<and>
      map Inr ts1 = map (\<lambda>m. parseTrade env (field ''trade'' m)) (filter (party_is_local env sa) ms)"
proof (induction ms arbitrary: os ts tr)
  case Nil
  then show ?case by (simp add: ret_Inr_iff)
next
  case (Cons m ms)
  from Cons.prems obtain tr1 os2 ts2 tr2
    where step: "match_callback env sa m (os, ts) = (tr1, Inr (os2, ts2))"
      and rest: "forEach (match_callback env sa) ms (os2, ts2) = (tr2, Inr (os', ts'))"
    by (auto simp: and_then_Inr_iff)
  from match_callback_Inr [OF step] obtain oa ta
    where a: "os2 = os @ oa" "ts2 = ts @ ta"
      "map Inr oa = map (\<lambda>m. parseOrder env (field ''order'' m)) (filter (owner_is_local env sa) [m])"
      "map Inr ta = map (\<lambda>m. parseTrade env (field ''trade'' m)) (filter (party_is_local env sa) [m])"
    by blast
  from Cons.IH [OF rest] obtain ob tb
    where b: "os' = os2 @ ob" "ts' = ts2 @ tb"
      "map Inr ob = map (\<lambda>m. parseOrder env (field ''order'' m)) (filter (owner_is_local env sa) ms)"
      "map Inr tb = map (\<lambda>m. parseTrade env (field ''trade'' m)) (filter (party_is_local env sa) ms)"
    by blast
  have "os' = os @ (oa @ ob)" "ts' = ts @ (ta @ tb)"
    using a b by simp_all
  moreover have "map Inr (oa @ ob) =
      map (\<lambda>m. parseOrder env (field ''order'' m)) (filter (owner_is_local env sa) (m # ms))"
    using a(3) b(3) by (simp split: if_splits)
  moreover have "map Inr (ta @ tb) =
      map (\<lambda>m. parseTrade env (field ''trade'' m)) (filter (party_is_local env sa) (m # ms))"
    using a(4) b(4) by (simp split: if_splits)
  ultimately show ?case by blast
qed

lemma forEach_match_cases:
  "(\<exists>s e. forEach (match_callback env sa) ms ([], []) = ([Raised s e], Inl e)) \<or>
   (\<exists>os ts. forEach (match_callback env sa) ms ([], []) = ([], Inr (os, ts)) \<and>
      map Inr os = map (\<lambda>m. parseOrder env (field ''order'' m)) (filter (owner_is_local env sa) ms) \<and>
      map Inr ts = map (\<lambda>m. parseTrade env (field ''trade'' m)) (filter (party_is_local env sa) ms))"
proof -
  have "silent (forEach (match_callback env sa) ms ([], []))"
    by (rule silent_forEach) (rule silent_match_callback)
  then consider s e where "forEach (match_callback env sa) ms ([], []) = ([Raised s e], Inl e)"
    | x where "forEach (match_callback env sa) ms ([], []) = ([], Inr x)"
    by (auto simp: silent_def)
  then show ?thesis
  proof cases
    case 1
    then show ?thesis by blast
  next
    case 2
    obtain os ts where "x = (os, ts)" by (cases x)
    with 2 forEach_match_Inr [of env sa ms "[]" "[]" "[]" os ts] show ?thesis
      by auto
  qed
qed


lemma on_matches_cases:
  "(\<exists>s e. on_matches label env event =
       ([Raised s e, Dispatch (AddDangerNotification (MessageOf e))], Inr ())) \<or>
   (\<exists>sg sa payload ms ps os ts.
      getSigner env = Inr (Some sg) \<and> getAddress sg = Inr sa \<and>
      get_prop ''payload'' event = Inr payload \<and>
      get_prop ''matches'' payload = Inr (JArr ms ps) \<and>
      map Inr os = map (\<lambda>m. parseOrder env (field ''order'' m)) (filter (owner_is_local env sa) ms) \<and>
      map Inr ts = map (\<lambda>m. parseTrade env (field ''trade'' m)) (filter (party_is_local env sa) ms) \<and>
      on_matches label env event =
        ((if os \<noteq> [] then [Dispatch (UpdateOrdersTable os)] else []) @
         (if ts \<noteq> [] then [Dispatch (UpdateTradesTable ts)] else []) @
         [Dispatch (AddSuccessNotification (Text label))], Inr ()))"
proof (cases "getSigner env")
  case (Inl e)
  then show ?thesis by (simp add: on_matches_def)
next
  case (Inr so)
  show ?thesis
  proof (cases so)
    case None
    with Inr show ?thesis by (simp add: on_matches_def await_getAddress_def)
  next
    case (Some sg)
    show ?thesis
    proof (cases "getAddress sg")
      case (Inl e)
      with Inr Some show ?thesis by (simp add: on_matches_def await_getAddress_def)
    next
      case sa: (Inr sa)
      show ?thesis
      proof (cases "get_prop ''payload'' event")
        case (Inl e)
        with Inr Some sa show ?thesis by (simp add: on_matches_def await_getAddress_def)
      next
        case payload: (Inr payload)
        show ?thesis
        proof (cases "get_prop ''matches'' payload")
          case (Inl e)
          with Inr Some sa payload show ?thesis
            by (simp add: on_matches_def await_getAddress_def)
        next
          case matches: (Inr matches)
          show ?thesis
          proof (cases "array_elems ''forEach'' matches")
            case (Inl e)
            with Inr Some sa payload matches show ?thesis
              by (simp add: on_matches_def await_getAddress_def elems_def)
          next
            case elems: (Inr ms)
            then obtain ps where arr: "matches = JArr ms ps"
              by (cases matches) (auto split: if_splits)
            from forEach_match_cases [of env sa ms] show ?thesis
            proof
              assume "\<exists>s e. forEach (match_callback env sa) ms ([], []) = ([Raised s e], Inl e)"
              then obtain s e
                where "forEach (match_callback env sa) ms ([], []) = ([Raised s e], Inl e)"
                by blast
              with Inr Some sa payload matches elems show ?thesis
                by (simp add: on_matches_def await_getAddress_def elems_def
                    catch_block_def dispatch_def emit_def)
            next
              assume "\<exists>os ts. forEach (match_callback env sa) ms ([], []) = ([], Inr (os, ts)) \<and>
                map Inr os = map (\<lambda>m. parseOrder env (field ''order'' m))
                  (filter (owner_is_local env sa) ms) \<and>
                map Inr ts = map (\<lambda>m. parseTrade env (field ''trade'' m))
                  (filter (party_is_local env sa) ms)"
              then obtain os ts
                where r: "forEach (match_callback env sa) ms ([], []) = ([], Inr (os, ts))"
                  and os: "map Inr os = map (\<lambda>m. parseOrder env (field ''order'' m))
                    (filter (owner_is_local env sa) ms)"
                  and ts: "map Inr ts = map (\<lambda>m. parseTrade env (field ''trade'' m))
                    (filter (party_is_local env sa) ms)"
                by blast
              have "on_matches label env event =
                  ((if os \<noteq> [] then [Dispatch (UpdateOrdersTable os)] else []) @
                   (if ts \<noteq> [] then [Dispatch (UpdateTradesTable ts)] else []) @
                   [Dispatch (AddSuccessNotification (Text label))], Inr ())"
                using Inr Some sa payload matches elems r
                by (simp add: on_matches_def await_getAddress_def elems_def
                    dispatch_def emit_def ret_def)
              with Inr Some sa payload matches arr os ts show ?thesis
                by blast
            qed
          qed
        qed
      qed
    qed
  qed
qed

lemma handleOrderSuccess_on_matches: "handleOrderSuccess = on_matches ''Order success''"
  by (simp add: fun_eq_iff handleOrderSuccess_def on_matches_def)

lemma handleOrderPending_on_matches: "handleOrderPending = on_matches ''Order pending''"
  by (simp add: fun_eq_iff handleOrderPending_def on_matches_def)

lemma and_then_assoc:
  "and_then (and_then m f) g = and_then m (\<lambda>x. and_then (f x) g)"
  by (cases m; cases "snd m") (auto simp: and_then_def split: prod.splits sum.splits)

lemma forEach_append:
  "forEach f (xs @ ys) acc = and_then (forEach f xs acc) (forEach f ys)"
proof (induction xs arbitrary: acc)
  case Nil
  show ?case by simp
next
  case (Cons x xs)
  have "forEach f (xs @ ys) = (\<lambda>acc. and_then (forEach f xs acc) (forEach f ys))"
    by (rule ext) (rule Cons.IH)
  then show ?case by (simp add: and_then_assoc)
qed

lemma fulfilments_Cons: "fulfilments [p] @ fulfilments ps = fulfilments (p # ps)"
  by (cases p) simp_all

lemma fulfilments_append [simp]: "fulfilments (ps @ qs) = fulfilments ps @ fulfilments qs"
  by (induction ps rule: fulfilments.induct) simp_all

lemma processable_callback:
  assumes "processable env sa m"
  shows "match_callback env sa m (os, ts) =
    ([], Inr (os @ (if owner_is_local env sa m
                    then fulfilments [parseOrder env (field ''order'' m)] else []),
              ts @ (if party_is_local env sa m
                    then fulfilments [parseTrade env (field ''trade'' m)] else [])))"
  using assms
  apply (simp add: processable_def)
  apply (cases "get_prop ''order'' m"; simp)
  apply (cases "get_prop ''trade'' m"; simp)
  apply (cases "get_prop ''userAddress'' (field ''order'' m)"; simp add: field_def)
  apply (cases "utils_getAddress env (field ''userAddress'' (field ''order'' m))";
      simp add: field_def)
  apply (cases "get_prop ''maker'' (field ''trade'' m)"; simp add: field_def)
  apply (cases "utils_getAddress env (field ''maker'' (field ''trade'' m))";
      simp add: field_def)
  apply (cases "parseOrder env (field ''order'' m)";
      cases "parseTrade env (field ''trade'' m)";
      auto simp: match_callback_def owner_is_local_def party_is_local_def same_address_def
        field_def ret_def split: if_splits sum.splits)
  done

lemma forEach_processable:
  "list_all (processable env sa) ms \<Longrightarrow>
   forEach (match_callback env sa) ms (os, ts) =
     ([], Inr (os @ fulfilments (map (\<lambda>m. parseOrder env (field ''order'' m))
                      (filter (owner_is_local env sa) ms)),
               ts @ fulfilments (map (\<lambda>m. parseTrade env (field ''trade'' m))
                      (filter (party_is_local env sa) ms))))"
proof (induction ms arbitrary: os ts)
  case Nil
  then show ?case by (simp add: ret_def)
next
  case (Cons m ms)
  then have m: "processable env sa m" and ms: "list_all (processable env sa) ms"
    by simp_all
  show ?case
    by (simp add: processable_callback [OF m] Cons.IH [OF ms] fulfilments_Cons)
qed

lemma on_matches_processable:
  fixes env :: "('o, 't, 'l, 'c) env"
  assumes "getSigner env = Inr (Some sg)" and "getAddress sg = Inr sa"
    and "get_prop ''payload'' event = Inr payload"
    and "get_prop ''matches'' payload = Inr (JArr ms ps)" and "map_of ps ''forEach'' = None"
    and "list_all (processable env sa) ms"
  shows "on_matches label env event =
    ((if fulfilments (map (\<lambda>m. parseOrder env (field ''order'' m))
           (filter (owner_is_local env sa) ms)) \<noteq> []
      then [Dispatch (UpdateOrdersTable
             (fulfilments (map (\<lambda>m. parseOrder env (field ''order'' m))
               (filter (owner_is_local env sa) ms))))]
      else []) @
     (if fulfilments (map (\<lambda>m. parseTrade env (field ''trade'' m))
           (filter (party_is_local env sa) ms)) \<noteq> []
      then [Dispatch (UpdateTradesTable
             (fulfilments (map (\<lambda>m. parseTrade env (field ''trade'' m))
               (filter (party_is_local env sa) ms))))]
      else []) @
     [Dispatch (AddSuccessNotification (Text label))], Inr ())"
  using assms(1-5) forEach_processable [OF assms(6), of "[]" "[]"]
  by (simp add: on_matches_def await_getAddress_def elems_def dispatch_def emit_def ret_def)

lemma match_callback_Inr_processable:
  assumes "match_callback env sa m (os, ts) = (tr, Inr r)"
  shows "processable env sa m"
  using assms
  apply (simp add: match_callback_def processable_def)
  apply (cases "get_prop ''order'' m"; simp add: raise_def)
  apply (cases "get_prop ''trade'' m"; simp add: raise_def)
  apply (cases "get_prop ''userAddress'' (field ''order'' m)"; simp add: raise_def field_def)
  apply (cases "utils_getAddress env (field ''userAddress'' (field ''order'' m))";
      simp add: raise_def field_def)
  apply (cases "get_prop ''maker'' (field ''trade'' m)"; simp add: raise_def field_def)
   apply (auto simp: Inr_iffs split: if_splits)[1]
  apply (cases "utils_getAddress env (field ''maker'' (field ''trade'' m))";
      simp add: raise_def field_def)
   apply (auto simp: Inr_iffs split: if_splits)[1]
  apply (auto simp: Inr_iffs split: if_splits sum.splits)
  done

lemma forEach_Inr_processable:
  "forEach (match_callback env sa) ms acc = (tr, Inr r) \<Longrightarrow> list_all (processable env sa) ms"
proof (induction ms arbitrary: acc tr)
  case Nil
  show ?case by simp
next
  case (Cons m ms)
  from Cons.prems obtain tr1 acc1 tr2
    where step: "match_callback env sa m acc = (tr1, Inr acc1)"
      and rest: "forEach (match_callback env sa) ms acc1 = (tr2, Inr r)"
    by (auto simp: and_then_Inr_iff)
  from step have "processable env sa m"
    by (cases acc) (auto dest: match_callback_Inr_processable)
  with Cons.IH [OF rest] show ?case by simp
qed

lemma on_matches_danger_unless_processable:
  fixes env :: "('o, 't, 'l, 'c) env"
  assumes "\<not> (\<exists>sg sa payload ms ps.
      getSigner env = Inr (Some sg) \<and> getAddress sg = Inr sa \<and>
      get_prop ''payload'' event = Inr payload \<and>
      get_prop ''matches'' payload = Inr (JArr ms ps) \<and> map_of ps ''forEach'' = None \<and>
      list_all (processable env sa) ms)"
  shows "\<exists>s e. on_matches label env event =
    ([Raised s e, Dispatch (AddDangerNotification (MessageOf e))], Inr ())"
proof (rule ccontr)
  assume no: "\<not> ?thesis"
  with on_matches_cases [of label env event] obtain sg sa payload ms ps
    where facts: "getSigner env = Inr (Some sg)" "getAddress sg = Inr sa"
      "get_prop ''payload'' event = Inr payload" "get_prop ''matches'' payload = Inr (JArr ms ps)"
    by blast
  have shadow: "map_of ps ''forEach'' = None"
  proof (rule ccontr)
    assume "map_of ps ''forEach'' \<noteq> None"
    with facts have "on_matches label env event =
        ([Raised Language TypeError, Dispatch (AddDangerNotification (MessageOf TypeError))],
         Inr ())"
      by (auto simp: on_matches_def await_getAddress_def elems_def)
    with no show False by blast
  qed
  have "silent (forEach (match_callback env sa) ms ([], []))"
    by (rule silent_forEach) (rule silent_match_callback)
  then consider s e where "forEach (match_callback env sa) ms ([], []) = ([Raised s e], Inl e)"
    | x where "forEach (match_callback env sa) ms ([], []) = ([], Inr x)"
    by (auto simp: silent_def)
  then show False
  proof cases
    case 1
    with facts shadow have "on_matches label env event =
        ([Raised s e, Dispatch (AddDangerNotification (MessageOf e))], Inr ())"
      by (simp add: on_matches_def await_getAddress_def elems_def catch_block_def dispatch_def
          emit_def)
    with no show False by blast
  next
    case 2
    then have "list_all (processable env sa) ms"
      by (rule forEach_Inr_processable)
    with facts shadow assms show False by blast
  qed
qed

text \<open>
  Claim C3, as amended. Whatever the event, \<^verbatim>\<open>handleOrderSuccess\<close> and
  \<^verbatim>\<open>handleOrderPending\<close> write to the tables at most twice, and they end in one of two
  ways: with a danger notification and nothing else, when something failed on the way, or
  with at most one update of the order table, at most one update of the trade table and
  exactly one success notification. When the signer and its address are obtained, the
  matches are an array and the callback gets through every match, the handler ends in
  the second way: it updates the order table once if the order batch is not empty and the
  trade table once if the trade batch is not empty, and then dispatches the success
  notification, also when both batches are empty. The order batch holds the parsed orders
  of exactly the matches whose owner, normalised, is strictly equal to the address the
  signer returned; the trade batch holds the parsed trades of exactly the matches whose
  maker or taker, normalised, is. Both keep the order of the matches. When one of these
  conditions fails (the signer or its address is not obtained, the matches are not an
  array, or the callback throws on some match), the handler ends in the first way.
\<close>

theorem order_success_batches:
  fixes env :: "('o, 't, 'l, 'c) env"
  assumes "(h = handleOrderSuccess \<and> label = ''Order success'') \<or>
           (h = handleOrderPending \<and> label = ''Order pending'')"
  shows "length (filter is_table_update (fst (h env event))) \<le> 2 \<and>
    ((\<exists>s e. h env event =
        ([Raised s e, Dispatch (AddDangerNotification (MessageOf e))], Inr ())) \<or>
     (\<exists>os ts. h env event =
        ((if os \<noteq> [] then [Dispatch (UpdateOrdersTable os)] else []) @
         (if ts \<noteq> [] then [Dispatch (UpdateTradesTable ts)] else []) @
         [Dispatch (AddSuccessNotification (Text label))], Inr ()))) \<and>
    (getSigner env = Inr (Some sg) \<longrightarrow> getAddress sg = Inr sa \<longrightarrow>
     get_prop ''payload'' event = Inr payload \<longrightarrow>
     get_prop ''matches'' payload = Inr (JArr ms ps) \<longrightarrow> map_of ps ''forEach'' = None \<longrightarrow>
     list_all (processable env sa) ms \<longrightarrow>
     h env event =
       ((if fulfilments (map (\<lambda>m. parseOrder env (field ''order'' m))
              (filter (owner_is_local env sa) ms)) \<noteq> []
         then [Dispatch (UpdateOrdersTable
                (fulfilments (map (\<lambda>m. parseOrder env (field ''order'' m))
                  (filter (owner_is_local env sa) ms))))]
         else []) @
        (if fulfilments (map (\<lambda>m. parseTrade env (field ''trade'' m))
              (filter (party_is_local env sa) ms)) \<noteq> []
         then [Dispatch (UpdateTradesTable
                (fulfilments (map (\<lambda>m. parseTrade env (field ''trade'' m))
                  (filter (party_is_local env sa) ms))))]
         else []) @
        [Dispatch (AddSuccessNotification (Text label))], Inr ())) \<and>
    (\<not> (\<exists>sg' sa' payload' ms' ps'.
         getSigner env = Inr (Some sg') \<and> getAddress sg' = Inr sa' \<and>
         get_prop ''payload'' event = Inr payload' \<and>
         get_prop ''matches'' payload' = Inr (JArr ms' ps') \<and> map_of ps' ''forEach'' = None \<and>
         list_all (processable env sa') ms') \<longrightarrow>
     (\<exists>s e. h env event =
        ([Raised s e, Dispatch (AddDangerNotification (MessageOf e))], Inr ())))"
proof -
  have h: "h = on_matches label"
    using assms handleOrderSuccess_on_matches handleOrderPending_on_matches by auto
  have cases: "(\<exists>s e. on_matches label env event =
        ([Raised s e, Dispatch (AddDangerNotification (MessageOf e))], Inr ())) \<or>
     (\<exists>os ts. on_matches label env event =
        ((if os \<noteq> [] then [Dispatch (UpdateOrdersTable os)] else []) @
         (if ts \<noteq> [] then [Dispatch (UpdateTradesTable ts)] else []) @
         [Dispatch (AddSuccessNotification (Text label))], Inr ()))"
    using on_matches_cases [of label env event] by blast
  then have count: "length (filter is_table_update (fst (on_matches label env event))) \<le> 2"
    by auto
  have unless: "\<not> (\<exists>sg' sa' payload' ms' ps'.
         getSigner env = Inr (Some sg') \<and> getAddress sg' = Inr sa' \<and>
         get_prop ''payload'' event = Inr payload' \<and>
         get_prop ''matches'' payload' = Inr (JArr ms' ps') \<and> map_of ps' ''forEach'' = None \<and>
         list_all (processable env sa') ms') \<longrightarrow>
     (\<exists>s e. on_matches label env event =
        ([Raised s e, Dispatch (AddDangerNotification (MessageOf e))], Inr ()))"
    by (rule impI) (rule on_matches_danger_unless_processable)
  from count cases on_matches_processable [of env sg sa event payload ms ps label] unless
  show ?thesis
    unfolding h by (intro conjI impI) blast+
qed

theorem order_success_batches_witness:
  "list_all (processable example_env (JStr ''0x5aAeb6053F3E94C9b9A09f33669435E7Ef1BeAed''))
     [local_match, foreign_match, taker_match] \<and>
   handleOrderSuccess example_env
      (matches_event ''ORDER_SUCCESS'' [local_match, foreign_match, taker_match]) =
     ([Dispatch (UpdateOrdersTable [field ''order'' local_match]),
       Dispatch (UpdateTradesTable [field ''trade'' local_match, field ''trade'' taker_match]),
       Dispatch (AddSuccessNotification (Text ''Order success''))], Inr ())"
  using order_success_batches [of handleOrderSuccess "''Order success''" example_env
      "matches_event ''ORDER_SUCCESS'' [local_match, foreign_match, taker_match]"]
  by (simp add: handleOrderSuccess_def example_env_def example_signer_def matches_event_def
      local_match_def foreign_match_def taker_match_def await_getAddress_def elems_def
      match_callback_def eip55_getAddress_def parse_object_def field_def dispatch_def emit_def
      ret_def processable_def)

text \<open>
  An event with one match whose owner is no address ends with a danger notification and
  no success notification. And with a signer that returns its address in lower case, the
  order of a match whose owner is that very address is left out of the batch.
\<close>

theorem order_event_without_notice_or_own_order:
  "handleOrderSuccess example_env (matches_event ''ORDER_SUCCESS'' [invalid_match]) =
     ([Raised Call_utils_getAddress (Failure ''invalid address''),
       Dispatch (AddDangerNotification (MessageOf (Failure ''invalid address'')))], Inr ()) \<and>
   same_account lowercase_env (field ''userAddress'' (field ''order'' local_match))
     (JStr ''0x5aaeb6053f3e94c9b9a09f33669435e7ef1beaed'') \<and>
   handleOrderPending lowercase_env (matches_event ''ORDER_PENDING'' [local_match]) =
     ([Dispatch (AddSuccessNotification (Text ''Order pending''))], Inr ())"
  by (simp add: handleOrderSuccess_def handleOrderPending_def lowercase_env_def example_env_def
      example_signer_def matches_event_def local_match_def invalid_match_def
      await_getAddress_def elems_def match_callback_def eip55_getAddress_def parse_object_def
      dispatch_def emit_def ret_def raise_def catch_block_def same_account_def field_def)

lemma same_address_canonical:
  "utils_getAddress env (JStr c) = Inr c \<Longrightarrow>
   same_address env a (JStr c) = same_account env a (JStr c)"
  by (cases "utils_getAddress env a") (auto simp: same_address_def same_account_def)

text \<open>
  Claim C7, as amended. The membership tests normalise the address of the payload with
  \<^verbatim>\<open>utils.getAddress\<close> and compare the result, by strict equality, with the address the
  signer returned, which they use as it is. On every match the callback gets through, the
  order enters its batch exactly when the owner passes that test and the trade enters its
  batch exactly when the maker or the taker passes it, each independently of the other.
  When the signer's address is in canonical form, the tests agree with equality of the
  canonical forms of both sides, so they succeed for every spelling of the address of the
  payload that denotes the signer's account.
\<close>

theorem membership_normalises_payload_side:
  assumes "processable env sa m"
  shows "match_callback env sa m (os, ts) =
      ([], Inr (os @ (if owner_is_local env sa m
                      then fulfilments [parseOrder env (field ''order'' m)] else []),
                ts @ (if party_is_local env sa m
                      then fulfilments [parseTrade env (field ''trade'' m)] else []))) \<and>
    (sa = JStr c \<longrightarrow> utils_getAddress env sa = Inr c \<longrightarrow>
       (owner_is_local env sa m \<longleftrightarrow>
          same_account env (field ''userAddress'' (field ''order'' m)) sa) \<and>
       (party_is_local env sa m \<longleftrightarrow>
          same_account env (field ''maker'' (field ''trade'' m)) sa \<or>
          same_account env (field ''taker'' (field ''trade'' m)) sa))"
  using processable_callback [OF assms, of os ts]
  by (auto simp: owner_is_local_def party_is_local_def same_address_canonical)

theorem membership_normalises_payload_side_witness:
  "processable example_env (JStr ''0x5aAeb6053F3E94C9b9A09f33669435E7Ef1BeAed'') taker_match \<and>
   match_callback example_env (JStr ''0x5aAeb6053F3E94C9b9A09f33669435E7Ef1BeAed'') taker_match
     ([], []) = ([], Inr ([], [field ''trade'' taker_match])) \<and>
   utils_getAddress example_env (JStr ''0x5aAeb6053F3E94C9b9A09f33669435E7Ef1BeAed'') =
     Inr ''0x5aAeb6053F3E94C9b9A09f33669435E7Ef1BeAed'' \<and>
   party_is_local example_env (JStr ''0x5aAeb6053F3E94C9b9A09f33669435E7Ef1BeAed'') taker_match"
  using membership_normalises_payload_side [of example_env
      "JStr ''0x5aAeb6053F3E94C9b9A09f33669435E7Ef1BeAed''" taker_match "[]" "[]"
      "''0x5aAeb6053F3E94C9b9A09f33669435E7Ef1BeAed''"]
  by (simp add: example_env_def taker_match_def field_def eip55_getAddress_def
      parse_object_def processable_def match_callback_def ret_def party_is_local_def
      same_address_def)

text \<open>
  A signer that returns its address in lower case: the order of a match whose owner is
  that very string is left out, and so is the trade, although both sides denote one
  account.
\<close>

theorem lowercase_signer_misses_own_order:
  "eip55_getAddress (JStr ''0x5aaeb6053f3e94c9b9a09f33669435e7ef1beaed'') =
     Inr ''0x5aAeb6053F3E94C9b9A09f33669435E7Ef1BeAed'' \<and>
   handleOrderSuccess lowercase_env (matches_event ''ORDER_SUCCESS'' [local_match]) =
     ([Dispatch (AddSuccessNotification (Text ''Order success''))], Inr ())"
  by (simp add: handleOrderSuccess_def lowercase_env_def example_env_def example_signer_def
      matches_event_def local_match_def await_getAddress_def elems_def
      match_callback_def eip55_getAddress_def parse_object_def dispatch_def emit_def ret_def)

subsection \<open>The steps of the signature request\<close>

lemma write_prop_Inr_iff:
  "write_prop n v obj = (tr, Inr x) \<longleftrightarrow> writable obj \<and> x = put_prop n v obj \<and> tr = []"
  by (cases obj) (auto simp: write_prop_def ret_def raise_def)

lemma get_prop_put_prop:
  "get_prop n m = Inr t \<Longrightarrow> writable t \<Longrightarrow> get_prop n (put_prop n t' m) = Inr t'"
  by (cases m) (auto simp: update_conv')

lemma put_prop_put_prop [simp]: "put_prop n v (put_prop n v' m) = put_prop n v m"
  by (cases m) simp_all

lemma silent_assign_tradeNonces: "silent (assign_tradeNonces env k ms)"
  by (induction ms arbitrary: k) auto

lemma assign_tradeNonces_Inr:
  "assign_tradeNonces env k ms = (tr, Inr ms1) \<Longrightarrow>
   tr = [] \<and> length ms1 = length ms \<and>
   (\<forall>i<length ms. get_prop ''trade'' (ms ! i) = Inr (field ''trade'' (ms ! i)) \<and>
      writable (field ''trade'' (ms ! i)) \<and>
      ms1 ! i = put_prop ''trade''
        (put_prop ''tradeNonce'' (getRandomNonce env (k + i)) (field ''trade'' (ms ! i))) (ms ! i))"
proof (induction ms arbitrary: k tr ms1)
  case Nil
  then show ?case by (simp add: ret_Inr_iff)
next
  case (Cons m ms)
  from Cons.prems obtain trade tr' rest
    where trade: "get_prop ''trade'' m = Inr trade" and w: "writable trade"
      and rest: "assign_tradeNonces env (Suc k) ms = (tr', Inr rest)"
      and ms1: "ms1 = put_prop ''trade'' (put_prop ''tradeNonce'' (getRandomNonce env k) trade) m # rest"
      and tr: "tr = tr'"
    by (auto simp: Inr_iffs write_prop_Inr_iff)
  from Cons.IH [OF rest] have ih: "tr' = []" "length rest = length ms"
    "\<And>i. i < length ms \<Longrightarrow> get_prop ''trade'' (ms ! i) = Inr (field ''trade'' (ms ! i)) \<and>
      writable (field ''trade'' (ms ! i)) \<and>
      rest ! i = put_prop ''trade''
        (put_prop ''tradeNonce'' (getRandomNonce env (Suc k + i)) (field ''trade'' (ms ! i))) (ms ! i)"
    by auto
  have f: "field ''trade'' m = trade"
    using trade by (simp add: field_def)
  show ?case
  proof (intro conjI allI impI)
    show "tr = []" using tr ih(1) by simp
    show "length ms1 = length (m # ms)" using ms1 ih(2) by simp
  next
    fix i assume i: "i < length (m # ms)"
    show "get_prop ''trade'' ((m # ms) ! i) = Inr (field ''trade'' ((m # ms) ! i))"
      using i trade f ih(3) by (cases i) auto
    show "writable (field ''trade'' ((m # ms) ! i))"
      using i w f ih(3) by (cases i) auto
    show "ms1 ! i = put_prop ''trade''
        (put_prop ''tradeNonce'' (getRandomNonce env (k + i)) (field ''trade'' ((m # ms) ! i)))
        ((m # ms) ! i)"
      using i ms1 f ih(3) by (cases i) auto
  qed
qed

lemma map_signTrade_Nil [simp]: "map_signTrade s [] = ret []"
  by simp

lemma map_signTrade_None:
  "get_prop ''trade'' m = Inr t \<Longrightarrow>
   map_signTrade None (m # ms) = ([Raised Language TypeError], Inl TypeError)"
  by (simp add: promise_signTrade_def raise_def ret_def)

lemma map_signTrade_Some:
  "\<forall>m\<in>set ms. get_prop ''trade'' m = Inr (field ''trade'' m) \<Longrightarrow>
   map_signTrade (Some sg) ms =
     (map (Raised Call_signTrade) (rejections (map (\<lambda>m. signTrade sg (field ''trade'' m)) ms)),
      Inr (map (\<lambda>m. signTrade sg (field ''trade'' m)) ms))"
proof (induction ms)
  case Nil
  then show ?case by (simp add: ret_def)
next
  case (Cons m ms)
  then show ?case
    by (cases "signTrade sg (field ''trade'' m)")
      (simp_all add: promise_signTrade_def ret_def)
qed

lemma promise_all_fulfilled:
  "rejections ps = [] \<Longrightarrow> promise_all r ps = Inr (fulfilments ps) \<and> map Inr (fulfilments ps) = ps"
proof (induction ps)
  case Nil
  then show ?case by (simp add: promise_all_def)
next
  case (Cons p ps)
  then show ?case by (cases p) (simp_all add: promise_all_def)
qed

lemma promise_all_rejected:
  "rejections ps \<noteq> [] \<Longrightarrow> \<exists>e. e \<in> set (rejections ps) \<and> promise_all r ps = Inl e"
proof -
  assume "rejections ps \<noteq> []"
  then obtain e es where es: "rejections ps = e # es"
    by (cases "rejections ps") auto
  have "(e # es) ! (r mod length (e # es)) \<in> set (e # es)"
    by (rule nth_mem) simp
  with es show ?thesis
    by (auto simp: promise_all_def)
qed

lemma get_prop_Inl: "get_prop n v = Inl e \<Longrightarrow> e = TypeError"
  by (cases v) auto

lemma set_prop_Inl: "set_prop n v obj = Inl e \<Longrightarrow> e = TypeError"
  by (cases obj) auto

lemma array_elems_Inl: "array_elems n v = Inl e \<Longrightarrow> e = TypeError"
  by (cases v) (auto split: if_splits)

lemma array_elems_Inr: "array_elems n v = Inr xs \<Longrightarrow> \<exists>ps. v = JArr xs ps"
  by (cases v) (auto split: if_splits)

lemma assign_tradeNonces_cases:
  "assign_tradeNonces env k ms = ([Raised Language TypeError], Inl TypeError) \<or>
   (\<exists>ms1. assign_tradeNonces env k ms = ([], Inr ms1))"
proof (induction ms arbitrary: k)
  case Nil
  show ?case by (simp add: ret_def)
next
  case (Cons m ms)
  show ?case
  proof (cases "get_prop ''trade'' m")
    case (Inl e)
    then show ?thesis using get_prop_Inl [OF Inl] by (simp add: raise_def)
  next
    case trade: (Inr trade)
    show ?thesis
    proof (cases "set_prop ''tradeNonce'' (getRandomNonce env k) trade")
      case (Inl e)
      then show ?thesis using trade set_prop_Inl [OF Inl]
        by (simp add: write_prop_def raise_def)
    next
      case (Inr trade')
      from Cons.IH [of "Suc k"] show ?thesis
      proof
        assume "assign_tradeNonces env (Suc k) ms = ([Raised Language TypeError], Inl TypeError)"
        with trade Inr show ?thesis by (simp add: write_prop_def ret_def)
      next
        assume "\<exists>ms1. assign_tradeNonces env (Suc k) ms = ([], Inr ms1)"
        then obtain ms1 where "assign_tradeNonces env (Suc k) ms = ([], Inr ms1)" ..
        with trade Inr show ?thesis by (simp add: write_prop_def ret_def)
      qed
    qed
  qed
qed

lemma upsert_order_cases:
  "(\<exists>e. truthy order \<and> parseOrder env order = Inl e \<and>
        upsert_order env order = ([Raised Call_parseOrder e], Inl e)) \<or>
   (\<exists>u. upsert_order env order = (u, Inr ()) \<and>
        (if truthy order
         then \<exists>po. parseOrder env order = Inr po \<and> u = [Dispatch (UpdateOrdersTable [po])]
         else u = []))"
  by (cases "parseOrder env order")
    (auto simp: upsert_order_def raise_def ret_def dispatch_def emit_def)

lemma sign_remainingOrder_cases:
  "(\<exists>s e. (s = Language \<or> s = Call_signOrder) \<and>
        sign_remainingOrder env signer ro = ([Raised s e], Inl e)) \<or>
   (\<exists>ro'. sign_remainingOrder env signer ro = ([], Inr ro') \<and>
        (if truthy ro
         then \<exists>sg. signer = Some sg \<and> writable ro \<and>
                signOrder sg (put_prop ''nonce'' (getRandomNonce env 0) ro) = Inr ro'
         else ro' = ro))"
proof (cases "truthy ro")
  case False
  then show ?thesis by (simp add: sign_remainingOrder_def ret_def)
next
  case True
  show ?thesis
  proof (cases "writable ro")
    case False
    then have "set_prop ''nonce'' (getRandomNonce env 0) ro = Inl TypeError"
      by (cases ro) auto
    with True show ?thesis
      by (simp add: sign_remainingOrder_def write_prop_def raise_def)
  next
    case w: True
    then have set: "set_prop ''nonce'' (getRandomNonce env 0) ro =
        Inr (put_prop ''nonce'' (getRandomNonce env 0) ro)"
      by (cases ro) auto
    show ?thesis
    proof (cases signer)
      case None
      with True set show ?thesis
        by (simp add: sign_remainingOrder_def write_prop_def await_signOrder_def raise_def)
    next
      case (Some sg)
      with True set w show ?thesis
        by (cases "signOrder sg (put_prop ''nonce'' (getRandomNonce env 0) ro)")
          (simp_all add: sign_remainingOrder_def write_prop_def await_signOrder_def
            raise_def ret_def)
    qed
  qed
qed

lemma sign_trades_cases:
  fixes env :: "('o, 't, 'l, 'c) env"
  shows
  "sign_trades env signer k matches = ([Raised Language TypeError], Inl TypeError) \<or>
   (\<exists>es e. es \<noteq> [] \<and> e \<in> set es \<and>
      sign_trades env signer k matches = (map (Raised Call_signTrade) es, Inl e)) \<or>
   (\<exists>matches'. sign_trades env signer k matches = ([], Inr matches') \<and>
      (if truthy matches
       then \<exists>ms ps ms2. matches = JArr ms ps \<and> matches' = JArr ms2 ps \<and>
              length ms2 = length ms \<and>
              (\<forall>i<length ms. \<exists>sg t'. signer = Some sg \<and> writable (field ''trade'' (ms ! i)) \<and>
                 signTrade sg (put_prop ''tradeNonce'' (getRandomNonce env (k + i))
                   (field ''trade'' (ms ! i))) = Inr t' \<and>
                 ms2 ! i = put_prop ''trade'' t' (ms ! i))
       else matches' = matches))"
proof (cases "truthy matches")
  case False
  then show ?thesis by (simp add: sign_trades_def ret_def)
next
  case True
  show ?thesis
  proof (cases "array_elems ''map'' matches")
    case (Inl e)
    with True array_elems_Inl [OF Inl] show ?thesis
      by (simp add: sign_trades_def elems_def raise_def)
  next
    case (Inr ms)
    then obtain ps where arr: "matches = JArr ms ps"
      using array_elems_Inr by blast
    from assign_tradeNonces_cases [of env k ms] show ?thesis
    proof
      assume "assign_tradeNonces env k ms = ([Raised Language TypeError], Inl TypeError)"
      with True Inr show ?thesis
        by (simp add: sign_trades_def elems_def ret_def)
    next
      assume "\<exists>ms1. assign_tradeNonces env k ms = ([], Inr ms1)"
      then obtain ms1 where ms1: "assign_tradeNonces env k ms = ([], Inr ms1)" ..
      from assign_tradeNonces_Inr [OF ms1]
      have len: "length ms1 = length ms"
        and at: "\<And>i. i < length ms \<Longrightarrow>
          get_prop ''trade'' (ms ! i) = Inr (field ''trade'' (ms ! i)) \<and>
          writable (field ''trade'' (ms ! i)) \<and>
          ms1 ! i = put_prop ''trade''
            (put_prop ''tradeNonce'' (getRandomNonce env (k + i)) (field ''trade'' (ms ! i)))
            (ms ! i)"
        by auto
      have rd: "get_prop ''trade'' (ms1 ! i) =
          Inr (put_prop ''tradeNonce'' (getRandomNonce env (k + i)) (field ''trade'' (ms ! i)))"
        if "i < length ms" for i
        using at [OF that] get_prop_put_prop [of "''trade''" "ms ! i" "field ''trade'' (ms ! i)"]
        by simp
      have fld: "field ''trade'' (ms1 ! i) =
          put_prop ''tradeNonce'' (getRandomNonce env (k + i)) (field ''trade'' (ms ! i))"
        if "i < length ms" for i
        using rd [OF that] by (simp add: field_def)
      have readable: "\<forall>m\<in>set ms1. get_prop ''trade'' m = Inr (field ''trade'' m)"
      proof
        fix m assume "m \<in> set ms1"
        then obtain i where "i < length ms1" "ms1 ! i = m"
          by (auto simp: in_set_conv_nth)
        with len rd [of i] fld [of i] show "get_prop ''trade'' m = Inr (field ''trade'' m)"
          by auto
      qed
      show ?thesis
      proof (cases signer)
        case None
        show ?thesis
        proof (cases ms1)
          case Nil
          with len have "ms = []" by simp
          with True Inr ms1 Nil None arr show ?thesis
            by (simp add: sign_trades_def elems_def ret_def await_all_def promise_all_def)
        next
          case (Cons m rest)
          with readable have "get_prop ''trade'' m = Inr (field ''trade'' m)" by simp
          from map_signTrade_None [OF this, of rest] Cons None
          have "(map_signTrade signer ms1 :: (('o, 't, 'l, 'c) effect, (exn + jsval) list) comp) =
              ([Raised Language TypeError], Inl TypeError)"
            by simp
          with True Inr ms1 show ?thesis
            by (simp add: sign_trades_def elems_def ret_def)
        qed
      next
        case (Some sg)
        define promises where "promises = map (\<lambda>m. signTrade sg (field ''trade'' m)) ms1"
        have run: "(map_signTrade signer ms1 :: (('o, 't, 'l, 'c) effect, (exn + jsval) list) comp) =
            (map (Raised Call_signTrade) (rejections promises), Inr promises)"
          using map_signTrade_Some [OF readable, of sg] Some by (simp add: promises_def)
        show ?thesis
        proof (cases "rejections promises = []")
          case False
          from promise_all_rejected [OF False, of "race env"] obtain e
            where e: "e \<in> set (rejections promises)" "promise_all (race env) promises = Inl e"
            by blast
          have "sign_trades env signer k matches =
              (map (Raised Call_signTrade) (rejections promises), Inl e)"
            using True Inr ms1 run e(2)
            by (simp add: sign_trades_def elems_def ret_def await_all_def)
          with False e(1) show ?thesis by blast
        next
          case none: True
          define ts where "ts = fulfilments promises"
          from promise_all_fulfilled [OF none, of "race env"]
          have all: "promise_all (race env) promises = Inr ts" and ts: "map Inr ts = promises"
            by (simp_all add: ts_def)
          have lts: "length ts = length ms"
            using ts len by (metis length_map promises_def)
          have res: "sign_trades env signer k matches =
              ([], Inr (JArr (map2 (put_prop ''trade'') ts ms1) ps))"
            using True Inr ms1 run all none arr
            by (simp add: sign_trades_def elems_def ret_def await_all_def)
          have each: "\<exists>sg t'. signer = Some sg \<and> writable (field ''trade'' (ms ! i)) \<and>
                 signTrade sg (put_prop ''tradeNonce'' (getRandomNonce env (k + i))
                   (field ''trade'' (ms ! i))) = Inr t' \<and>
                 map2 (put_prop ''trade'') ts ms1 ! i = put_prop ''trade'' t' (ms ! i)"
            if i: "i < length ms" for i
          proof -
            have "promises ! i = Inr (ts ! i)"
              using ts i lts by (metis nth_map)
            moreover have "promises ! i = signTrade sg (field ''trade'' (ms1 ! i))"
              using i len by (simp add: promises_def)
            ultimately have sig: "signTrade sg (put_prop ''tradeNonce'' (getRandomNonce env (k + i))
                (field ''trade'' (ms ! i))) = Inr (ts ! i)"
              using fld [OF i] by simp
            have "map2 (put_prop ''trade'') ts ms1 ! i = put_prop ''trade'' (ts ! i) (ms1 ! i)"
              using i len lts by simp
            also have "\<dots> = put_prop ''trade'' (ts ! i) (ms ! i)"
              using at [OF i] by simp
            finally show ?thesis
              using Some at [OF i] sig by blast
          qed
          have "length (map2 (put_prop ''trade'') ts ms1) = length ms"
            using len lts by simp
          with True res arr each show ?thesis
            by auto
        qed
      qed
    qed
  qed
qed

lemma handleRequestSignature_cases [case_names early unsigned rejected sent]:
  fixes env :: "('o, 't, 'l, 'c) env"
  assumes early: "\<And>s e. s = Language \<or> s = Call_getSigner \<or> s = Call_parseOrder \<Longrightarrow>
      handleRequestSignature env event =
        ([Raised s e, Dispatch (AddDangerNotification (MessageOf e))], Inr ()) \<Longrightarrow> thesis"
    and unsigned: "\<And>payload order u s e.
      get_prop ''payload'' event = Inr payload \<Longrightarrow> get_prop ''order'' payload = Inr order \<Longrightarrow>
      (if truthy order
       then \<exists>po. parseOrder env order = Inr po \<and> u = [Dispatch (UpdateOrdersTable [po])]
       else u = []) \<Longrightarrow>
      s = Language \<or> s = Call_signOrder \<Longrightarrow>
      handleRequestSignature env event =
        (u @ [Raised s e, Dispatch (AddDangerNotification (MessageOf e))], Inr ()) \<Longrightarrow> thesis"
    and rejected: "\<And>payload order u es e.
      get_prop ''payload'' event = Inr payload \<Longrightarrow> get_prop ''order'' payload = Inr order \<Longrightarrow>
      (if truthy order
       then \<exists>po. parseOrder env order = Inr po \<and> u = [Dispatch (UpdateOrdersTable [po])]
       else u = []) \<Longrightarrow>
      es \<noteq> [] \<Longrightarrow> e \<in> set es \<Longrightarrow>
      handleRequestSignature env event =
        (u @ map (Raised Call_signTrade) es @
           [Dispatch (AddDangerNotification (MessageOf e))], Inr ()) \<Longrightarrow> thesis"
    and sent: "\<And>payload hash order ro matches signer u ro' matches'.
      get_prop ''payload'' event = Inr payload \<Longrightarrow> get_prop ''hash'' event = Inr hash \<Longrightarrow>
      get_prop ''order'' payload = Inr order \<Longrightarrow>
      get_prop ''remainingOrder'' payload = Inr ro \<Longrightarrow>
      get_prop ''matches'' payload = Inr matches \<Longrightarrow> getSigner env = Inr signer \<Longrightarrow>
      (if truthy order
       then \<exists>po. parseOrder env order = Inr po \<and> u = [Dispatch (UpdateOrdersTable [po])]
       else u = []) \<Longrightarrow>
      (if truthy ro
       then \<exists>sg. signer = Some sg \<and> writable ro \<and>
              signOrder sg (put_prop ''nonce'' (getRandomNonce env 0) ro) = Inr ro'
       else ro' = ro) \<Longrightarrow>
      (if truthy matches
       then \<exists>ms ps ms2. matches = JArr ms ps \<and> matches' = JArr ms2 ps \<and>
              length ms2 = length ms \<and>
              (\<forall>i<length ms. \<exists>sg t'. signer = Some sg \<and>
                 writable (field ''trade'' (ms ! i)) \<and>
                 signTrade sg (put_prop ''tradeNonce''
                   (getRandomNonce env ((if truthy ro then 1 else 0) + i))
                   (field ''trade'' (ms ! i))) = Inr t' \<and>
                 ms2 ! i = put_prop ''trade'' t' (ms ! i))
       else matches' = matches) \<Longrightarrow>
      handleRequestSignature env event =
        (u @ [Dispatch (AddSuccessNotification (Text ''Signing trade'')),
              SendNewSubmitSignatureMessage hash order ro' matches'], Inr ()) \<Longrightarrow> thesis"
  shows thesis
proof (cases "get_prop ''payload'' event")
  case (Inl e)
  then show ?thesis by (intro early [of Language e]) (simp_all add: handleRequestSignature_def)
next
  case payload: (Inr payload)
  show ?thesis
  proof (cases "get_prop ''hash'' event")
    case (Inl e)
    with payload show ?thesis
      by (intro early [of Language e]) (simp_all add: handleRequestSignature_def)
  next
    case hash: (Inr hash)
    show ?thesis
    proof (cases "get_prop ''order'' payload")
      case (Inl e)
      with payload hash show ?thesis
        by (intro early [of Language e]) (simp_all add: handleRequestSignature_def)
    next
      case order: (Inr order)
      have ro: "get_prop ''remainingOrder'' payload = Inr (field ''remainingOrder'' payload)"
        and matches: "get_prop ''matches'' payload = Inr (field ''matches'' payload)"
        using order by (cases payload; simp add: field_def)+
      define ro where "ro = field ''remainingOrder'' payload"
      define matches where "matches = field ''matches'' payload"
      note reads = payload hash order ro [folded ro_def] matches [folded matches_def]
      show ?thesis
      proof (cases "getSigner env")
        case (Inl e)
        with reads show ?thesis
          by (intro early [of Call_getSigner e]) (simp_all add: handleRequestSignature_def)
      next
        case signer: (Inr signer)
        from upsert_order_cases [of order env] show ?thesis
        proof
          assume "\<exists>e. truthy order \<and> parseOrder env order = Inl e \<and>
            upsert_order env order = ([Raised Call_parseOrder e], Inl e)"
          then obtain e where "upsert_order env order = ([Raised Call_parseOrder e], Inl e)"
            by blast
          with reads signer show ?thesis
            by (intro early [of Call_parseOrder e])
              (simp_all add: handleRequestSignature_def catch_block_def dispatch_def emit_def)
        next
          assume "\<exists>u. upsert_order env order = (u, Inr ()) \<and>
            (if truthy order
             then \<exists>po. parseOrder env order = Inr po \<and> u = [Dispatch (UpdateOrdersTable [po])]
             else u = [])"
          then obtain u where u: "upsert_order env order = (u, Inr ())"
            and uspec: "if truthy order
             then \<exists>po. parseOrder env order = Inr po \<and> u = [Dispatch (UpdateOrdersTable [po])]
             else u = []"
            by blast
          from sign_remainingOrder_cases [of env signer ro] show ?thesis
          proof
            assume "\<exists>s e. (s = Language \<or> s = Call_signOrder) \<and>
              sign_remainingOrder env signer ro = ([Raised s e], Inl e)"
            then obtain s e where s: "s = Language \<or> s = Call_signOrder"
              and "sign_remainingOrder env signer ro = ([Raised s e], Inl e)"
              by blast
            with reads signer u have "handleRequestSignature env event =
                (u @ [Raised s e, Dispatch (AddDangerNotification (MessageOf e))], Inr ())"
              by (simp add: handleRequestSignature_def catch_block_def dispatch_def emit_def)
            with payload order uspec s show ?thesis
              by (rule unsigned)
          next
            assume "\<exists>ro'. sign_remainingOrder env signer ro = ([], Inr ro') \<and>
              (if truthy ro
               then \<exists>sg. signer = Some sg \<and> writable ro \<and>
                      signOrder sg (put_prop ''nonce'' (getRandomNonce env 0) ro) = Inr ro'
               else ro' = ro)"
            then obtain ro' where r: "sign_remainingOrder env signer ro = ([], Inr ro')"
              and rspec: "if truthy ro
               then \<exists>sg. signer = Some sg \<and> writable ro \<and>
                      signOrder sg (put_prop ''nonce'' (getRandomNonce env 0) ro) = Inr ro'
               else ro' = ro"
              by blast
            from sign_trades_cases [of env signer "if truthy ro then 1 else 0" matches]
            show ?thesis
            proof (elim disjE exE conjE)
              assume "sign_trades env signer (if truthy ro then 1 else 0) matches =
                  ([Raised Language TypeError], Inl TypeError)"
              with reads signer u r have h: "handleRequestSignature env event =
                  (u @ [Raised Language TypeError,
                        Dispatch (AddDangerNotification (MessageOf TypeError))], Inr ())"
                by (simp add: handleRequestSignature_def catch_block_def dispatch_def emit_def)
              have "Language = Language \<or> Language = Call_signOrder"
                by simp
              from payload order uspec this h show ?thesis
                by (rule unsigned)
            next
              fix es e
              assume es: "es \<noteq> []" "e \<in> set es"
                and "sign_trades env signer (if truthy ro then 1 else 0) matches =
                  (map (Raised Call_signTrade) es, Inl e)"
              with reads signer u r have "handleRequestSignature env event =
                  (u @ map (Raised Call_signTrade) es @
                     [Dispatch (AddDangerNotification (MessageOf e))], Inr ())"
                by (simp add: handleRequestSignature_def catch_block_def dispatch_def emit_def)
              with payload order uspec es show ?thesis
                by (rule rejected)
            next
              fix matches'
              assume "sign_trades env signer (if truthy ro then 1 else 0) matches =
                  ([], Inr matches')"
                and mspec: "if truthy matches
                 then \<exists>ms ps ms2. matches = JArr ms ps \<and> matches' = JArr ms2 ps \<and>
                      length ms2 = length ms \<and>
                      (\<forall>i<length ms. \<exists>sg t'. signer = Some sg \<and>
                         writable (field ''trade'' (ms ! i)) \<and>
                         signTrade sg (put_prop ''tradeNonce''
                           (getRandomNonce env ((if truthy ro then 1 else 0) + i))
                           (field ''trade'' (ms ! i))) = Inr t' \<and>
                         ms2 ! i = put_prop ''trade'' t' (ms ! i))
                 else matches' = matches"
              with reads signer u r have "handleRequestSignature env event =
                  (u @ [Dispatch (AddSuccessNotification (Text ''Signing trade'')),
                        SendNewSubmitSignatureMessage hash order ro' matches'], Inr ())"
                by (simp add: handleRequestSignature_def dispatch_def emit_def)
              with reads signer uspec rspec mspec show ?thesis
                by (rule sent)
            qed
          qed
        qed
      qed
    qed
  qed
qed

subsection \<open>The outcome of the signature request\<close>

lemma tables_after_append:
  "tables_after reduce (xs @ ys) tb = tables_after reduce ys (tables_after reduce xs tb)"
  by (simp add: tables_after_def)

lemma tables_after_Raised [simp]: "tables_after reduce (map (Raised s) es) tb = tb"
  by (induction es) (simp_all add: tables_after_def)

lemma tables_after_Nil [simp]: "tables_after reduce [] tb = tb"
  by (simp add: tables_after_def)

lemma tables_after_Cons_Raised [simp]:
  "tables_after reduce (Raised s e # tr) tb = tables_after reduce tr tb"
  by (simp add: tables_after_def)

lemma tables_after_Cons_danger [simp]:
  "tables_after reduce (Dispatch (AddDangerNotification n) # tr) tb = tables_after reduce tr tb"
  by (simp add: tables_after_def)

lemma filter_is_send_Raised [simp]: "filter is_send (map (Raised s) es) = []"
  by (induction es) simp_all

lemma upsert_no_send:
  "(if c then \<exists>po. P po \<and> u = [Dispatch (UpdateOrdersTable [po])] else u = []) \<Longrightarrow>
   filter is_send u = [] \<and> filter is_failure u = [] \<and> (\<forall>s e. Raised s e \<notin> set u)"
  by (auto split: if_splits)

text \<open>
  Claim C1. When a call of \<^verbatim>\<open>signOrder\<close> or of \<^verbatim>\<open>signTrade\<close> fails during a signature
  request, the handler ends normally and sends no submission message. What it has done
  is: the update of the order table with the parsed \<^verbatim>\<open>order\<close>, when the payload had one;
  the failed calls; and last a danger notification with the message of one of the
  failed calls (the one \<^verbatim>\<open>Promise.all\<close> reports, when several trades fail). The tables are
  as the update of step 1 left them.
\<close>

theorem signing_failure_sends_nothing:
  fixes env :: "('o, 't, 'l, 'c) env"
  assumes "Raised Call_signOrder e \<in> set (fst (handleRequestSignature env event)) \<or>
           Raised Call_signTrade e \<in> set (fst (handleRequestSignature env event))"
  shows "snd (handleRequestSignature env event) = Inr () \<and>
         filter is_send (fst (handleRequestSignature env event)) = [] \<and>
         (\<exists>payload order u fs e'.
            get_prop ''payload'' event = Inr payload \<and> get_prop ''order'' payload = Inr order \<and>
            (if truthy order
             then \<exists>po. parseOrder env order = Inr po \<and> u = [Dispatch (UpdateOrdersTable [po])]
             else u = []) \<and>
            (fs = [Raised Call_signOrder e'] \<or>
             (\<exists>es. fs = map (Raised Call_signTrade) es \<and> e' \<in> set es)) \<and>
            fst (handleRequestSignature env event) =
              u @ fs @ [Dispatch (AddDangerNotification (MessageOf e'))] \<and>
            tables_after reduce (fst (handleRequestSignature env event)) tb =
              tables_after reduce u tb)"
proof (cases rule: handleRequestSignature_cases [of env event])
  case (early s e')
  with assms show ?thesis by auto
next
  case (unsigned payload order u s e')
  note u = upsert_no_send [OF unsigned(3)]
  from assms unsigned(4,5) u have s: "s = Call_signOrder"
    by auto
  have "tables_after reduce (fst (handleRequestSignature env event)) tb =
      tables_after reduce u tb"
    using unsigned(5) by (simp add: tables_after_append)
  moreover have "fst (handleRequestSignature env event) =
      u @ [Raised Call_signOrder e'] @ [Dispatch (AddDangerNotification (MessageOf e'))]"
    using unsigned(5) s by simp
  moreover have "filter is_send (fst (handleRequestSignature env event)) = []"
    using unsigned(5) u by simp
  moreover have "snd (handleRequestSignature env event) = Inr ()"
    using unsigned(5) by simp
  ultimately show ?thesis
    using unsigned(1,2,3) by blast
next
  case (rejected payload order u es e')
  note u = upsert_no_send [OF rejected(3)]
  have "tables_after reduce (fst (handleRequestSignature env event)) tb =
      tables_after reduce u tb"
    using rejected(6) by (simp add: tables_after_append)
  moreover have "fst (handleRequestSignature env event) =
      u @ map (Raised Call_signTrade) es @ [Dispatch (AddDangerNotification (MessageOf e'))]"
    using rejected(6) by simp
  moreover have "filter is_send (fst (handleRequestSignature env event)) = []"
    using rejected(6) u by simp
  moreover have "snd (handleRequestSignature env event) = Inr ()"
    using rejected(6) by simp
  ultimately show ?thesis
    using rejected(1,2,3,5) by blast
next
  case (sent payload hash order ro matches signer u ro' matches')
  note u = upsert_no_send [OF sent(7)]
  from assms sent(10) u show ?thesis by auto
qed


lemmas eval_defs = handleRequestSignature_def upsert_order_def sign_remainingOrder_def
  sign_trades_def await_signOrder_def promise_signTrade_def await_all_def promise_all_def
  write_prop_def elems_def dispatch_def emit_def ret_def raise_def catch_block_def
  example_env_def example_signer_def parse_object_def signature_event_def


theorem signing_failure_sends_nothing_witness:
  "Raised Call_signTrade (Failure ''signature denied'')
     \<in> set (fst (handleRequestSignature refusing_env signature_event)) \<and>
   handleRequestSignature refusing_env signature_event =
     ([Dispatch (UpdateOrdersTable [JObj [(''id'', JStr ''o1'')]]),
       Raised Call_signTrade (Failure ''signature denied''),
       Raised Call_signTrade (Failure ''signature denied''),
       Dispatch (AddDangerNotification (MessageOf (Failure ''signature denied'')))], Inr ()) \<and>
   tables_after (\<lambda>a n. Suc n) (fst (handleRequestSignature refusing_env signature_event)) (0 :: nat) = 1"
  using signing_failure_sends_nothing [of "Failure ''signature denied''" refusing_env
      signature_event "\<lambda>a n. Suc n" "0 :: nat"]
  by (simp add: eval_defs refusing_env_def tables_after_def)

subsection \<open>Payloads that fail to parse\<close>

lemma forEach_fails_after_processable:
  assumes "list_all (processable env sa) pre"
    and "\<And>acc. match_callback env sa m acc = ([Raised s e], Inl e)"
  shows "forEach (match_callback env sa) (pre @ m # post) ([], []) = ([Raised s e], Inl e)"
  using forEach_processable [OF assms(1), of "[]" "[]"] assms(2)
  by (simp add: forEach_append)

lemma on_matches_parse_failure:
  fixes env :: "('o, 't, 'l, 'c) env"
  assumes "getSigner env = Inr (Some sg)" and "getAddress sg = Inr sa"
    and "get_prop ''payload'' event = Inr payload"
    and "get_prop ''matches'' payload = Inr (JArr (pre @ m # post) ps)"
    and "map_of ps ''forEach'' = None"
    and "list_all (processable env sa) pre"
    and "get_prop ''order'' m = Inr order" and "get_prop ''trade'' m = Inr trade"
    and "get_prop ''userAddress'' order = Inr userAddress"
    and "utils_getAddress env userAddress = Inr owner"
    and "(JStr owner = sa \<and> s = Call_parseOrder \<and> parseOrder env order = Inl e) \<or>
         ((if JStr owner = sa then \<not> isl (parseOrder env order) else True) \<and>
          (\<exists>maker makerAddress.
             get_prop ''maker'' trade = Inr maker \<and>
             utils_getAddress env maker = Inr makerAddress \<and>
             (if JStr makerAddress = sa then True
              else \<exists>taker takerAddress. get_prop ''taker'' trade = Inr taker \<and>
                     utils_getAddress env taker = Inr takerAddress \<and>
                     JStr takerAddress = sa)) \<and>
          s = Call_parseTrade \<and> parseTrade env trade = Inl e)"
  shows "on_matches label env event =
    ([Raised s e, Dispatch (AddDangerNotification (MessageOf e))], Inr ())"
proof -
  have cb: "match_callback env sa m acc = ([Raised s e], Inl e)" for acc
  proof (cases acc)
    case (Pair os ts)
    from assms(11) show ?thesis
    proof
      assume "JStr owner = sa \<and> s = Call_parseOrder \<and> parseOrder env order = Inl e"
      with assms(7-10) Pair show ?thesis
        by (simp add: match_callback_def raise_def)
    next
      assume a: "(if JStr owner = sa then \<not> isl (parseOrder env order) else True) \<and>
          (\<exists>maker makerAddress.
             get_prop ''maker'' trade = Inr maker \<and>
             utils_getAddress env maker = Inr makerAddress \<and>
             (if JStr makerAddress = sa then True
              else \<exists>taker takerAddress. get_prop ''taker'' trade = Inr taker \<and>
                     utils_getAddress env taker = Inr takerAddress \<and>
                     JStr takerAddress = sa)) \<and>
          s = Call_parseTrade \<and> parseTrade env trade = Inl e"
      then obtain maker makerAddress where mk: "get_prop ''maker'' trade = Inr maker"
        "utils_getAddress env maker = Inr makerAddress"
        "if JStr makerAddress = sa then True
              else \<exists>taker takerAddress. get_prop ''taker'' trade = Inr taker \<and>
                     utils_getAddress env taker = Inr takerAddress \<and>
                     JStr takerAddress = sa"
        by blast
      from a have o: "if JStr owner = sa then \<not> isl (parseOrder env order) else True"
        and t: "s = Call_parseTrade" "parseTrade env trade = Inl e"
        by simp_all
      have first: "(if JStr owner = sa
            then and_then (call Call_parseOrder (parseOrder env order))
                   (\<lambda>parsed. ret (os @ [parsed]))
            else ret os) =
          (([], Inr (if JStr owner = sa then os @ [projr (parseOrder env order)] else os))
            :: (('o, 't, 'l, 'c) effect, 'o list) comp)"
        using o by (cases "parseOrder env order") (auto simp: ret_def)
      have test: "(if JStr makerAddress = sa then ret True
            else and_then (read_prop ''taker'' trade) (\<lambda>taker.
                 and_then (call Call_utils_getAddress (utils_getAddress env taker))
                   (\<lambda>takerAddress. ret (JStr takerAddress = sa)))) =
          (([], Inr True) :: (('o, 't, 'l, 'c) effect, bool) comp)"
        using mk(3) by (auto simp: ret_def split: if_splits)
      show ?thesis
        using assms(7-10) Pair mk(1,2) t
        by (simp add: match_callback_def first test raise_def)
    qed
  qed
  have "forEach (match_callback env sa) (pre @ m # post) ([], []) = ([Raised s e], Inl e)"
    using assms(6) cb by (rule forEach_fails_after_processable)
  with assms(1-5) show ?thesis
    by (simp add: on_matches_def await_getAddress_def elems_def catch_block_def dispatch_def
        emit_def ret_def)
qed

lemma get_prop_other:
  "get_prop n v = Inr x \<Longrightarrow> get_prop n' v = Inr (field n' v)"
  by (cases v) (simp_all add: field_def)

lemma handleRequestSignature_parse_failure:
  fixes env :: "('o, 't, 'l, 'c) env"
  assumes "get_prop ''type'' event = Inr type" and "get_prop ''payload'' event = Inr payload"
    and "get_prop ''order'' payload = Inr order" and "truthy order"
    and "getSigner env = Inr signer" and "parseOrder env order = Inl e"
  shows "handleRequestSignature env event =
    ([Raised Call_parseOrder e, Dispatch (AddDangerNotification (MessageOf e))], Inr ())"
  using assms(2-6) get_prop_other [OF assms(1), of "''hash''"]
    get_prop_other [OF assms(3), of "''remainingOrder''"]
    get_prop_other [OF assms(3), of "''matches''"]
  by (simp add: handleRequestSignature_def upsert_order_def)

text \<open>
  Claim C5. On every channel, when the parser that the handler calls on the payload of an
  event fails, the callback of \<^verbatim>\<open>socket.onMessage\<close> does just this: it dispatches one danger
  notification with the message of the parser's failure. It dispatches no table action,
  so the tables are as they were for every reducer, and it returns normally. For an added
  or cancelled order the payload is the order; for order success and order pending the
  failure is that of the order or of the trade of the first match the callback does not
  get through; for a signature request it is that of the order; for the order book, the
  trades and the candles the payload is the dataset. The hypotheses are on the inputs
  alone: the parser, applied to what the handler passes it, returns a failure, and the
  handler reaches that call (the payload of a dataset is truthy, \<^verbatim>\<open>getSigner\<close> returns
  for a signature request, and the signer, its address and the matches before the failing
  one are as order success and order pending need them).
\<close>

theorem parse_failure_changes_no_table:
  fixes env :: "('o, 't, 'l, 'c) env"
  assumes "get_prop ''channel'' message = Inr channel"
    and "get_prop ''event'' message = Inr event"
    and "get_prop ''type'' event = Inr type"
    and "get_prop ''payload'' event = Inr payload"
    and "(channel = JStr ''orders'' \<and>
            (type = JStr ''ORDER_ADDED'' \<or> type = JStr ''ORDER_CANCELLED'') \<and>
            s = Call_parseOrder \<and> parseOrder env payload = Inl e) \<or>
         (channel = JStr ''orders'' \<and>
            (type = JStr ''ORDER_SUCCESS'' \<or> type = JStr ''ORDER_PENDING'') \<and>
            (\<exists>sg sa pre m post ps order trade userAddress owner.
               getSigner env = Inr (Some sg) \<and> getAddress sg = Inr sa \<and>
               get_prop ''matches'' payload = Inr (JArr (pre @ m # post) ps) \<and>
               map_of ps ''forEach'' = None \<and>
               list_all (processable env sa) pre \<and>
               get_prop ''order'' m = Inr order \<and> get_prop ''trade'' m = Inr trade \<and>
               get_prop ''userAddress'' order = Inr userAddress \<and>
               utils_getAddress env userAddress = Inr owner \<and>
               ((JStr owner = sa \<and> s = Call_parseOrder \<and> parseOrder env order = Inl e) \<or>
                ((if JStr owner = sa then \<not> isl (parseOrder env order) else True) \<and>
                 (\<exists>maker makerAddress.
                    get_prop ''maker'' trade = Inr maker \<and>
                    utils_getAddress env maker = Inr makerAddress \<and>
                    (if JStr makerAddress = sa then True
                     else \<exists>taker takerAddress. get_prop ''taker'' trade = Inr taker \<and>
                            utils_getAddress env taker = Inr takerAddress \<and>
                            JStr takerAddress = sa)) \<and>
                 s = Call_parseTrade \<and> parseTrade env trade = Inl e)))) \<or>
         (channel = JStr ''orders'' \<and> type = JStr ''REQUEST_SIGNATURE'' \<and>
            (\<exists>order signer. get_prop ''order'' payload = Inr order \<and> truthy order \<and>
               getSigner env = Inr signer \<and>
               s = Call_parseOrder \<and> parseOrder env order = Inl e)) \<or>
         (channel = JStr ''orderbook'' \<and> (type = JStr ''INIT'' \<or> type = JStr ''UPDATE'') \<and>
            truthy payload \<and>
            s = Call_parseOrderBookData \<and> parseOrderBookData env payload = Inl e) \<or>
         (channel = JStr ''trades'' \<and> (type = JStr ''INIT'' \<or> type = JStr ''UPDATE'') \<and>
            truthy payload \<and>
            s = Call_parseTrades \<and> parseTrades env payload = Inl e) \<or>
         (channel = JStr ''ohlcv'' \<and> (type = JStr ''INIT'' \<or> type = JStr ''UPDATE'') \<and>
            truthy payload \<and>
            s = Call_parseOHLCV \<and> parseOHLCV env payload = Inl e)"
  shows "onMessage env message =
           ([Raised s e, Dispatch (AddDangerNotification (MessageOf e))], Inr ()) \<and>
         tables_after reduce (fst (onMessage env message)) tb = tb"
proof -
  note msg = assms(1-4)
  let ?goal = "onMessage env message =
      ([Raised s e, Dispatch (AddDangerNotification (MessageOf e))], Inr ())"
  have added: ?goal
    if "channel = JStr ''orders'' \<and>
        (type = JStr ''ORDER_ADDED'' \<or> type = JStr ''ORDER_CANCELLED'') \<and>
        s = Call_parseOrder \<and> parseOrder env payload = Inl e"
    using that msg
    by (auto simp: onMessage_def handleOrderMessage_def handleOrderAdded_def
        handleOrderCancelled_def dispatch_thunk_def)
  have matched: ?goal
    if d: "channel = JStr ''orders'' \<and>
        (type = JStr ''ORDER_SUCCESS'' \<or> type = JStr ''ORDER_PENDING'') \<and>
        (\<exists>sg sa pre m post ps order trade userAddress owner.
           getSigner env = Inr (Some sg) \<and> getAddress sg = Inr sa \<and>
           get_prop ''matches'' payload = Inr (JArr (pre @ m # post) ps) \<and>
           map_of ps ''forEach'' = None \<and>
           list_all (processable env sa) pre \<and>
           get_prop ''order'' m = Inr order \<and> get_prop ''trade'' m = Inr trade \<and>
           get_prop ''userAddress'' order = Inr userAddress \<and>
           utils_getAddress env userAddress = Inr owner \<and>
           ((JStr owner = sa \<and> s = Call_parseOrder \<and> parseOrder env order = Inl e) \<or>
            ((if JStr owner = sa then \<not> isl (parseOrder env order) else True) \<and>
             (\<exists>maker makerAddress.
                get_prop ''maker'' trade = Inr maker \<and>
                utils_getAddress env maker = Inr makerAddress \<and>
                (if JStr makerAddress = sa then True
                 else \<exists>taker takerAddress. get_prop ''taker'' trade = Inr taker \<and>
                        utils_getAddress env taker = Inr takerAddress \<and>
                        JStr takerAddress = sa)) \<and>
             s = Call_parseTrade \<and> parseTrade env trade = Inl e)))"
  proof -
    from d have ch: "channel = JStr ''orders''"
      and ty: "type = JStr ''ORDER_SUCCESS'' \<or> type = JStr ''ORDER_PENDING''"
      and ex: "\<exists>sg sa pre m post ps order trade userAddress owner.
           getSigner env = Inr (Some sg) \<and> getAddress sg = Inr sa \<and>
           get_prop ''matches'' payload = Inr (JArr (pre @ m # post) ps) \<and>
           map_of ps ''forEach'' = None \<and>
           list_all (processable env sa) pre \<and>
           get_prop ''order'' m = Inr order \<and> get_prop ''trade'' m = Inr trade \<and>
           get_prop ''userAddress'' order = Inr userAddress \<and>
           utils_getAddress env userAddress = Inr owner \<and>
           ((JStr owner = sa \<and> s = Call_parseOrder \<and> parseOrder env order = Inl e) \<or>
            ((if JStr owner = sa then \<not> isl (parseOrder env order) else True) \<and>
             (\<exists>maker makerAddress.
                get_prop ''maker'' trade = Inr maker \<and>
                utils_getAddress env maker = Inr makerAddress \<and>
                (if JStr makerAddress = sa then True
                 else \<exists>taker takerAddress. get_prop ''taker'' trade = Inr taker \<and>
                        utils_getAddress env taker = Inr takerAddress \<and>
                        JStr takerAddress = sa)) \<and>
             s = Call_parseTrade \<and> parseTrade env trade = Inl e))"
      by (rule conjunct1, rule conjunct2 [THEN conjunct1], rule conjunct2 [THEN conjunct2])
    have m: "on_matches label env event =
        ([Raised s e, Dispatch (AddDangerNotification (MessageOf e))], Inr ())" for label
      using ex
      apply (elim exE)
      apply (rule on_matches_parse_failure [OF _ _ msg(4)])
               apply (erule conjunct1)
              apply (erule conjunct2 [THEN conjunct1])
             apply (erule conjunct2 [THEN conjunct2, THEN conjunct1])
            apply (erule conjunct2 [THEN conjunct2, THEN conjunct2, THEN conjunct1])
           apply (erule conjunct2 [THEN conjunct2, THEN conjunct2, THEN conjunct2, THEN conjunct1])
          apply (erule conjunct2 [THEN conjunct2, THEN conjunct2, THEN conjunct2, THEN conjunct2,
            THEN conjunct1])
         apply (erule conjunct2 [THEN conjunct2, THEN conjunct2, THEN conjunct2, THEN conjunct2,
            THEN conjunct2, THEN conjunct1])
        apply (erule conjunct2 [THEN conjunct2, THEN conjunct2, THEN conjunct2, THEN conjunct2,
            THEN conjunct2, THEN conjunct2, THEN conjunct1])
       apply (erule conjunct2 [THEN conjunct2, THEN conjunct2, THEN conjunct2, THEN conjunct2,
            THEN conjunct2, THEN conjunct2, THEN conjunct2, THEN conjunct1])
      apply (erule conjunct2 [THEN conjunct2, THEN conjunct2, THEN conjunct2, THEN conjunct2,
            THEN conjunct2, THEN conjunct2, THEN conjunct2, THEN conjunct2])
      done
    from ty show ?thesis
    proof
      assume "type = JStr ''ORDER_SUCCESS''"
      with msg ch m [of "''Order success''"] show ?thesis
        by (simp add: onMessage_def handleOrderMessage_def handleOrderSuccess_on_matches
            dispatch_thunk_def)
    next
      assume "type = JStr ''ORDER_PENDING''"
      with msg ch m [of "''Order pending''"] show ?thesis
        by (simp add: onMessage_def handleOrderMessage_def handleOrderPending_on_matches
            dispatch_thunk_def)
    qed
  qed
  have signature: ?goal
    if "channel = JStr ''orders'' \<and> type = JStr ''REQUEST_SIGNATURE'' \<and>
        (\<exists>order signer. get_prop ''order'' payload = Inr order \<and> truthy order \<and>
           getSigner env = Inr signer \<and>
           s = Call_parseOrder \<and> parseOrder env order = Inl e)"
  proof -
    from that obtain order signer where "get_prop ''order'' payload = Inr order"
      "truthy order" "getSigner env = Inr signer" "parseOrder env order = Inl e"
      by blast
    from handleRequestSignature_parse_failure [OF msg(3,4) this] that msg show ?thesis
      by (auto simp: onMessage_def handleOrderMessage_def dispatch_thunk_def)
  qed
  have book: ?goal
    if "channel = JStr ''orderbook'' \<and> (type = JStr ''INIT'' \<or> type = JStr ''UPDATE'') \<and>
        truthy payload \<and>
        s = Call_parseOrderBookData \<and> parseOrderBookData env payload = Inl e"
    using that msg
    by (auto simp: onMessage_def handleOrderBookMessage_def is_fresh_array_def)
  have trades: ?goal
    if "channel = JStr ''trades'' \<and> (type = JStr ''INIT'' \<or> type = JStr ''UPDATE'') \<and>
        truthy payload \<and>
        s = Call_parseTrades \<and> parseTrades env payload = Inl e"
    using that msg
    by (auto simp: onMessage_def handleTradesMessage_def is_fresh_array_def)
  have ohlcv: ?goal
    if "channel = JStr ''ohlcv'' \<and> (type = JStr ''INIT'' \<or> type = JStr ''UPDATE'') \<and>
        truthy payload \<and>
        s = Call_parseOHLCV \<and> parseOHLCV env payload = Inl e"
    using that msg
    by (auto simp: onMessage_def handleOHLCVMessage_def is_fresh_array_def)
  from assms(5) have ?goal
    apply (elim disjE)
         apply (erule added)
        apply (erule matched)
       apply (erule signature)
      apply (erule book)
     apply (erule trades)
    apply (erule ohlcv)
    done
  then show ?thesis by simp
qed

theorem parse_failure_changes_no_table_witness:
  "onMessage example_env (wire_message ''orders'' ''ORDER_ADDED'' (JStr ''garbage'')) =
     ([Raised Call_parseOrder (Failure ''malformed payload''),
       Dispatch (AddDangerNotification (MessageOf (Failure ''malformed payload'')))], Inr ()) \<and>
   tables_after (\<lambda>a n. Suc n)
     (fst (onMessage example_env (wire_message ''orders'' ''ORDER_ADDED'' (JStr ''garbage''))))
     (0 :: nat) = 0 \<and>
   onMessage strict_env
     (wire_message ''orders'' ''ORDER_PENDING''
        (JObj [(''matches'', JArr [taker_match, local_match, foreign_match] [])])) =
     ([Raised Call_parseTrade (Failure ''amount is missing''),
       Dispatch (AddDangerNotification (MessageOf (Failure ''amount is missing'')))], Inr ()) \<and>
   onMessage example_env
     (wire_message ''orders'' ''REQUEST_SIGNATURE'' (JObj [(''order'', JStr ''o1'')])) =
     ([Raised Call_parseOrder (Failure ''malformed payload''),
       Dispatch (AddDangerNotification (MessageOf (Failure ''malformed payload'')))], Inr ()) \<and>
   onMessage example_env (wire_message ''orderbook'' ''UPDATE'' (JObj [(''bids'', JArr [] [])])) =
     ([Raised Call_parseOrderBookData (Failure ''malformed payload''),
       Dispatch (AddDangerNotification (MessageOf (Failure ''malformed payload'')))], Inr ()) \<and>
   onMessage example_env (wire_message ''trades'' ''INIT'' (JStr ''garbage'')) =
     ([Raised Call_parseTrades (Failure ''malformed payload''),
       Dispatch (AddDangerNotification (MessageOf (Failure ''malformed payload'')))], Inr ())"
  using parse_failure_changes_no_table
    [where message = "wire_message ''orders'' ''ORDER_ADDED'' (JStr ''garbage'')"
       and env = example_env and channel = "JStr ''orders''" and type = "JStr ''ORDER_ADDED''"
       and payload = "JStr ''garbage''" and s = Call_parseOrder
       and e = "Failure ''malformed payload''" and reduce = "\<lambda>a n. Suc n" and tb = "0 :: nat"
       and event = "JObj [(''type'', JStr ''ORDER_ADDED''), (''payload'', JStr ''garbage'')]"]
  by (simp add: wire_message_def onMessage_def handleOrderMessage_def handleOrderAdded_def
      handleOrderPending_def handleRequestSignature_def upsert_order_def
      handleOrderBookMessage_def handleTradesMessage_def is_fresh_array_def dispatch_thunk_def
      await_getAddress_def elems_def match_callback_def
      strict_env_def example_env_def example_signer_def parse_object_def parse_array_def
      parse_book_def parse_with_amount_def eip55_getAddress_def
      taker_match_def local_match_def foreign_match_def
      ret_def raise_def catch_block_def dispatch_def emit_def tables_after_def)

end
